theory Spec2Isabelle
  imports Main
begin

section \<open>Python values, exceptions and \<open>json.dumps\<close>\<close>

text \<open>
  The values that travel through the agent (request payloads, REST bodies, tool
  schemas) are the JSON-shaped Python values: \<open>None\<close>, booleans, integers, strings,
  lists and dictionaries with string keys. A dictionary is an association list in
  insertion order, as Python dictionaries iterate and as \<open>json.dumps\<close> prints them.
  Floating-point numbers are left out. A character is one code point below 256.
\<close>

datatype json =
    JNull
  | JBool bool
  | JInt int
  | JStr string
  | JList "json list"
  | JObj "(string \<times> json) list"

text \<open>
  An exception is its class and the text \<open>str(e)\<close> gives; the handlers of the program
  read nothing else of it.
\<close>

datatype exn_class =
    KeyError | TypeError | IndexError | AttributeError | NameError | ValidationError
  | HTTPError | ConnectionError | JSONDecodeError | OtherError

datatype pyexn = PyExn exn_class string

fun str_exn :: "pyexn \<Rightarrow> string" where
  "str_exn (PyExn c m) = m"

text \<open>\<open>str(n)\<close> for an integer: decimal digits, a minus sign for a negative number.\<close>

fun str_nat :: "nat \<Rightarrow> string" where
  "str_nat n = (if n < 10 then [char_of (48 + n)]
                else str_nat (n div 10) @ [char_of (48 + n mod 10)])"

declare str_nat.simps [simp del]

definition str_int :: "int \<Rightarrow> string" where
  "str_int i = (if i < 0 then CHR ''-'' # str_nat (nat (- i)) else str_nat (nat i))"

text \<open>\<open>sep.join(xs)\<close>.\<close>

fun join :: "string \<Rightarrow> string list \<Rightarrow> string" where
  "join sep [] = []"
| "join sep [x] = x"
| "join sep (x # y # ys) = x @ sep @ join sep (y # ys)"

text \<open>
  \<open>json.dumps\<close> with its default arguments: \<open>ensure_ascii\<close> escapes the quote, the
  backslash and every character outside the printable ASCII range; items are separated
  by a comma and a space, keys from values by a colon and a space.
\<close>

definition hex_digit :: "nat \<Rightarrow> char" where
  "hex_digit n = ''0123456789abcdef'' ! (n mod 16)"

definition escape_char :: "char \<Rightarrow> string" where
  "escape_char c =
     (if c = CHR 0x22 then [CHR 0x5C, CHR 0x22]
      else if c = CHR 0x5C then [CHR 0x5C, CHR 0x5C]
      else if c = CHR 0x0A then [CHR 0x5C, CHR ''n'']
      else if c = CHR 0x0D then [CHR 0x5C, CHR ''r'']
      else if c = CHR 0x09 then [CHR 0x5C, CHR ''t'']
      else if c = CHR 0x08 then [CHR 0x5C, CHR ''b'']
      else if c = CHR 0x0C then [CHR 0x5C, CHR ''f'']
      else if (of_char c :: nat) < 32 \<or> 126 < (of_char c :: nat)
        then [CHR 0x5C, CHR ''u'', CHR ''0'', CHR ''0'',
              hex_digit ((of_char c :: nat) div 16), hex_digit (of_char c :: nat)]
      else [c])"

definition encode_str :: "string \<Rightarrow> string" where
  "encode_str s = CHR 0x22 # concat (map escape_char s) @ [CHR 0x22]"

fun json_dumps :: "json \<Rightarrow> string" where
  "json_dumps JNull = ''null''"
| "json_dumps (JBool b) = (if b then ''true'' else ''false'')"
| "json_dumps (JInt i) = str_int i"
| "json_dumps (JStr s) = encode_str s"
| "json_dumps (JList xs) = ''['' @ join '', '' (map json_dumps xs) @ '']''"
| "json_dumps (JObj kvs) =
     ''{'' @ join '', '' (map (\<lambda>kv. encode_str (fst kv) @ '': '' @ json_dumps (snd kv)) kvs) @ ''}''"

text \<open>The name \<open>type(v).__name__\<close> that Python puts into its error messages.\<close>

fun type_name :: "json \<Rightarrow> string" where
  "type_name JNull = ''NoneType''"
| "type_name (JBool b) = ''bool''"
| "type_name (JInt i) = ''int''"
| "type_name (JStr s) = ''str''"
| "type_name (JList xs) = ''list''"
| "type_name (JObj kvs) = ''dict''"

text \<open>\<open>v.get(key, default)\<close>: a dictionary method, an AttributeError on anything else.\<close>

definition py_get :: "json \<Rightarrow> string \<Rightarrow> json \<Rightarrow> pyexn + json" where
  "py_get v key dflt =
     (case v of
        JObj kvs \<Rightarrow> Inr (case map_of kvs key of Some x \<Rightarrow> x | None \<Rightarrow> dflt)
      | _ \<Rightarrow> Inl (PyExn AttributeError
                 ([CHR 0x27] @ type_name v @ [CHR 0x27] @ '' object has no attribute ''
                  @ [CHR 0x27] @ ''get'' @ [CHR 0x27])))"

section \<open>The REST tools (tools.py)\<close>

subsection \<open>The HTTP client and the other collaborators\<close>

datatype http_verb = GET | POST | DELETE

record http_request =
  verb :: http_verb
  url :: string
  headers :: "(string \<times> string) list"
  json_arg :: "json option"
  timeout :: nat

text \<open>
  A response: its status, reason phrase and URL (what \<open>raise_for_status\<close> reads) and the
  outcome of \<open>response.json()\<close>, which raises when the body is not JSON text.
\<close>

record http_response =
  status_code :: nat
  reason :: string
  response_url :: string
  response_json :: "pyexn + json"

datatype http_outcome = Raises pyexn | Returns http_response

text \<open>
  What a tool cannot compute by itself: the network (\<open>requests.get\<close>, \<open>requests.post\<close>,
  \<open>requests.delete\<close>), \<open>json.loads\<close>, and the notebook global \<open>dbutils\<close>, which is
  \<open>None\<close> here where the name is not defined.
\<close>

record world =
  send :: "http_request \<Rightarrow> http_outcome"
  loads :: "string \<Rightarrow> pyexn + json"
  dbutils :: "(string \<Rightarrow> string \<Rightarrow> pyexn + string) option"

definition DATABRICKS_BASE_URL :: string where
  "DATABRICKS_BASE_URL = ''YOUR DATABRICKS BASE URL''"

definition DATABRICKS_TOKEN :: string where
  "DATABRICKS_TOKEN = ''YOUR DATABRICKS PAT TOKEN''"

definition get_auth_headers :: "(string \<times> string) list" where
  "get_auth_headers =
     [(''Authorization'', ''Bearer '' @ DATABRICKS_TOKEN),
      (''Content-Type'', ''application/json'')]"

definition request :: "http_verb \<Rightarrow> string \<Rightarrow> json option \<Rightarrow> http_request" where
  "request v path data =
     \<lparr>verb = v, url = DATABRICKS_BASE_URL @ path, headers = get_auth_headers,
      json_arg = data, timeout = 30\<rparr>"

text \<open>\<open>response.raise_for_status()\<close>: an HTTPError for a status from 400 to 599.\<close>

definition raise_for_status :: "http_response \<Rightarrow> pyexn option" where
  "raise_for_status r =
     (if 400 \<le> status_code r \<and> status_code r < 500
        then Some (PyExn HTTPError (str_nat (status_code r) @ '' Client Error: '' @ reason r
                                     @ '' for url: '' @ response_url r))
      else if 500 \<le> status_code r \<and> status_code r < 600
        then Some (PyExn HTTPError (str_nat (status_code r) @ '' Server Error: '' @ reason r
                                     @ '' for url: '' @ response_url r))
      else None)"

text \<open>The request followed by \<open>raise_for_status\<close>, as every tool writes the two.\<close>

definition perform :: "world \<Rightarrow> http_request \<Rightarrow> pyexn + http_response" where
  "perform w req =
     (case send w req of
        Raises e \<Rightarrow> Inl e
      | Returns r \<Rightarrow> (case raise_for_status r of Some e \<Rightarrow> Inl e | None \<Rightarrow> Inr r))"

text \<open>The two payloads the tools build: the handler's and the synthesized success.\<close>

definition error_payload :: "string \<Rightarrow> pyexn \<Rightarrow> string" where
  "error_payload tool e =
     json_dumps (JObj [(''error'', JStr (''Databricks API Error: '' @ str_exn e)),
                       (''tool'', JStr tool)])"

definition success_payload :: "string \<Rightarrow> string" where
  "success_payload msg = json_dumps (JObj [(''status'', JStr ''Success''), (''message'', JStr msg)])"

text \<open>
  The three shapes of a tool's \<open>try\<close> block after the request was built. Each returns
  the tool's text; \<open>tool\<close> is the name the handler of that tool writes.
\<close>

definition returning_body :: "world \<Rightarrow> string \<Rightarrow> http_request \<Rightarrow> string" where
  "returning_body w tool req =
     (case perform w req of
        Inl e \<Rightarrow> error_payload tool e
      | Inr r \<Rightarrow> (case response_json r of
                   Inl e \<Rightarrow> error_payload tool e
                 | Inr result \<Rightarrow> json_dumps result))"

definition returning_field :: "world \<Rightarrow> string \<Rightarrow> string \<Rightarrow> http_request \<Rightarrow> string" where
  "returning_field w tool field req =
     (case perform w req of
        Inl e \<Rightarrow> error_payload tool e
      | Inr r \<Rightarrow> (case response_json r of
                   Inl e \<Rightarrow> error_payload tool e
                 | Inr body \<Rightarrow> (case py_get body field (JList []) of
                                 Inl e \<Rightarrow> error_payload tool e
                               | Inr result \<Rightarrow> json_dumps result)))"

definition returning_message :: "world \<Rightarrow> string \<Rightarrow> string \<Rightarrow> http_request \<Rightarrow> string" where
  "returning_message w tool msg req =
     (case perform w req of
        Inl e \<Rightarrow> error_payload tool e
      | Inr r \<Rightarrow> success_payload msg)"

text \<open>\<open>if x is not None: d[key] = x\<close> and \<open>if x: d[key] = x\<close>, as items to append.\<close>

definition if_given :: "string \<Rightarrow> ('a \<Rightarrow> json) \<Rightarrow> 'a option \<Rightarrow> (string \<times> json) list" where
  "if_given key f x = (case x of None \<Rightarrow> [] | Some a \<Rightarrow> [(key, f a)])"

definition if_truthy :: "string \<Rightarrow> string option \<Rightarrow> (string \<times> json) list" where
  "if_truthy key x = (case x of None \<Rightarrow> [] | Some s \<Rightarrow> (if s = [] then [] else [(key, JStr s)]))"

subsection \<open>Service principals\<close>

text \<open>
  Every tool returns its text together with the HTTP requests it issued, in order.
  A tool builds its request inside the \<open>try\<close> block from values that cannot fail, so
  the request is written as a \<open>let\<close> before the block's outcome is read.
\<close>

definition list_service_principal ::
  "world \<Rightarrow> string option \<Rightarrow> int option \<Rightarrow> string option \<Rightarrow> string option \<Rightarrow> int option
     \<Rightarrow> string option \<Rightarrow> string option \<Rightarrow> string \<times> http_request list" where
  "list_service_principal w filter' count sortBy sortOrder startIndex attributes excludedAttributes =
     (let request_data =
            if_given ''filter'' JStr filter' @ if_given ''count'' JInt count
            @ if_given ''sortBy'' JStr sortBy @ if_given ''sortOrder'' JStr sortOrder
            @ if_given ''startIndex'' JInt startIndex @ if_given ''attributes'' JStr attributes
            @ if_given ''excludedAttributes'' JStr excludedAttributes;
          req = request GET ''/api/2.0/preview/scim/v2/ServicePrincipals'' (Some (JObj request_data))
      in (returning_body w ''list_service_principal'' req, [req]))"

definition create_service_principal ::
  "world \<Rightarrow> string \<Rightarrow> bool \<Rightarrow> string option \<Rightarrow> string \<times> http_request list" where
  "create_service_principal w display_name active application_id =
     (let request_data =
            [(''schemas'', JList [JStr ''urn:ietf:params:scim:schemas:core:2.0:ServicePrincipal'']),
             (''displayName'', JStr display_name),
             (''active'', JBool active)]
            @ if_given ''applicationId'' JStr application_id;
          req = request POST ''/api/2.0/preview/scim/v2/ServicePrincipals'' (Some (JObj request_data))
      in (returning_body w ''create_service_principal'' req, [req]))"

definition get_service_principal_details :: "world \<Rightarrow> int \<Rightarrow> string \<times> http_request list" where
  "get_service_principal_details w id' =
     (let req = request GET (''/api/2.0/preview/scim/v2/ServicePrincipals/'' @ str_int id')
                  (Some (JObj [(''id'', JInt id')]))
      in (returning_body w ''get_service_principal_details'' req, [req]))"

definition delete_service_principal :: "world \<Rightarrow> int \<Rightarrow> string \<times> http_request list" where
  "delete_service_principal w id' =
     (let req = request DELETE (''/api/2.0/preview/scim/v2/ServicePrincipals/'' @ str_int id') None
      in (returning_message w ''delete_service_principal''
            (''Service Principal with ID '' @ str_int id' @ '' deleted successfully.'') req, [req]))"

subsection \<open>Scopes and secrets\<close>

definition list_of_scopes :: "world \<Rightarrow> string \<times> http_request list" where
  "list_of_scopes w =
     (let req = request GET ''/api/2.0/secrets/scopes/list'' None
      in (returning_field w ''list_of_scopes'' ''scopes'' req, [req]))"

definition create_scope ::
  "world \<Rightarrow> string \<Rightarrow> string \<Rightarrow> string option \<Rightarrow> string \<times> http_request list" where
  "create_scope w scope scope_backend_type initial_manage_principal =
     (let request_data =
            [(''scope'', JStr scope), (''scope_backend_type'', JStr scope_backend_type)]
            @ if_given ''initial_manage_principal'' JStr initial_manage_principal;
          req = request POST ''/api/2.0/secrets/scopes/create'' (Some (JObj request_data))
      in (returning_message w ''create_scope'' (''Scope '' @ scope @ '' created successfully.'') req,
          [req]))"

definition add_secret ::
  "world \<Rightarrow> string \<Rightarrow> string \<Rightarrow> string option \<Rightarrow> string option \<Rightarrow> string \<times> http_request list" where
  "add_secret w scope key string_value bytes_value =
     (let request_data =
            [(''scope'', JStr scope), (''key'', JStr key)]
            @ if_truthy ''string_value'' string_value @ if_truthy ''bytes_value'' bytes_value;
          req = request POST ''/api/2.0/secrets/put'' (Some (JObj request_data))
      in (returning_message w ''create_secret''
            (''Secret with key '' @ key @ '' stored successfully.'') req, [req]))"

definition delete_secret :: "world \<Rightarrow> string \<Rightarrow> string \<Rightarrow> string \<times> http_request list" where
  "delete_secret w scope key =
     (let req = request POST ''/api/2.0/secrets/delete''
                  (Some (JObj [(''scope'', JStr scope), (''key'', JStr key)]))
      in (returning_message w ''delete_secret''
            (''Secret with key '' @ key @ '' deleted successfully.'') req, [req]))"

definition delete_scope :: "world \<Rightarrow> string \<Rightarrow> string \<times> http_request list" where
  "delete_scope w scope =
     (let req = request POST ''/api/2.0/secrets/scopes/delete'' (Some (JObj [(''scope'', JStr scope)]))
      in (returning_message w ''delete_scope'' (''Scope '' @ scope @ '' deleted successfully.'') req,
          [req]))"

text \<open>
  \<open>get_secret\<close> issues no HTTP request: it reads \<open>dbutils.secrets.get\<close>, and the name
  \<open>dbutils\<close> is a NameError where no notebook defines it.
\<close>

definition get_secret :: "world \<Rightarrow> string \<Rightarrow> string \<Rightarrow> string \<times> http_request list" where
  "get_secret w scope key =
     (case dbutils w of
        None \<Rightarrow> (error_payload ''get_secret''
                   (PyExn NameError (''name '' @ [CHR 0x27] @ ''dbutils'' @ [CHR 0x27] @ '' is not defined'')), [])
      | Some secrets_get \<Rightarrow>
          (case secrets_get scope key of
             Inl e \<Rightarrow> (error_payload ''get_secret'' e, [])
           | Inr secret_value \<Rightarrow>
               (json_dumps (JObj [(''key'', JStr key), (''value'', JStr secret_value),
                                  (''source'', JStr ''dbutils'')]), [])))"

definition create_acl_scopes ::
  "world \<Rightarrow> string \<Rightarrow> string \<Rightarrow> string \<Rightarrow> string \<times> http_request list" where
  "create_acl_scopes w scope permission principal' =
     (let req = request POST ''/api/2.0/secrets/acls/put''
                  (Some (JObj [(''scope'', JStr scope), (''principal'', JStr principal'),
                               (''permission'', JStr permission)]))
      in (returning_message w ''create_acl_scopes''
            (''Gave '' @ permission @ '' permission to '' @ principal' @ '' on '' @ scope @ ''.'') req,
          [req]))"

definition list_acl_scopes :: "world \<Rightarrow> string \<Rightarrow> string \<times> http_request list" where
  "list_acl_scopes w scope =
     (let req = request GET ''/api/2.0/secrets/acls/list'' (Some (JObj [(''scope'', JStr scope)]))
      in (returning_body w ''list_acl_scopes'' req, [req]))"

definition delete_acl_scopes :: "world \<Rightarrow> string \<Rightarrow> string \<Rightarrow> string \<times> http_request list" where
  "delete_acl_scopes w scope principal' =
     (let req = request POST ''/api/2.0/secrets/acls/delete''
                  (Some (JObj [(''scope'', JStr scope), (''principal'', JStr principal')]))
      in (returning_message w ''delete_acl_scopes''
            (''Deleted permissions for '' @ principal' @ '' on '' @ scope @ ''.'') req, [req]))"

subsection \<open>Clusters\<close>

definition list_clusters :: "world \<Rightarrow> string \<times> http_request list" where
  "list_clusters w =
     (let req = request GET ''/api/2.1/clusters/list'' None
      in (returning_field w ''list_clusters'' ''clusters'' req, [req]))"

definition terminate_clusters :: "world \<Rightarrow> string \<Rightarrow> string \<times> http_request list" where
  "terminate_clusters w cluster_id =
     (let req = request POST ''/api/2.1/clusters/delete'' (Some (JObj [(''cluster_id'', JStr cluster_id)]))
      in (returning_message w ''terminate_clusters''
            (''Cluster '' @ cluster_id @ '' terminated successfully.'') req, [req]))"

definition start_cluster :: "world \<Rightarrow> string \<Rightarrow> string \<times> http_request list" where
  "start_cluster w cluster_id =
     (let req = request POST ''/api/2.1/clusters/start'' (Some (JObj [(''cluster_id'', JStr cluster_id)]))
      in (returning_message w ''start_cluster''
            (''Cluster '' @ cluster_id @ '' started successfully.'') req, [req]))"

definition get_cluster_info :: "world \<Rightarrow> string \<Rightarrow> string \<times> http_request list" where
  "get_cluster_info w cluster_id =
     (let req = request GET ''/api/2.1/clusters/get'' (Some (JObj [(''cluster_id'', JStr cluster_id)]))
      in (returning_body w ''get_cluster_info'' req, [req]))"

definition restart_cluster :: "world \<Rightarrow> string \<Rightarrow> string \<times> http_request list" where
  "restart_cluster w cluster_id =
     (let req = request POST ''/api/2.1/clusters/restart'' (Some (JObj [(''cluster_id'', JStr cluster_id)]))
      in (returning_message w ''restart_cluster''
            (''Cluster '' @ cluster_id @ '' restarted successfully.'') req, [req]))"

subsection \<open>Jobs\<close>

text \<open>
  \<open>start_job\<close> parses \<open>job_parameters\<close> inside the \<open>try\<close> block, before the request:
  when \<open>json.loads\<close> raises, the handler runs and no request was issued.
\<close>

definition start_job :: "world \<Rightarrow> int \<Rightarrow> string option \<Rightarrow> string \<times> http_request list" where
  "start_job w job_id job_parameters =
     (let parsed = (case job_parameters of
                      None \<Rightarrow> Inr []
                    | Some p \<Rightarrow> (if p = [] then Inr []
                                 else (case loads w p of
                                         Inl e \<Rightarrow> Inl e
                                       | Inr v \<Rightarrow> Inr [(''json_parameters'', v)])))
      in (case parsed of
            Inl e \<Rightarrow> (error_payload ''start_job'' e, [])
          | Inr extra \<Rightarrow>
              (let req = request POST ''/api/2.2/jobs/run-now'' (Some (JObj ((''job_id'', JInt job_id) # extra)))
               in (returning_message w ''start_job''
                     (''Job: '' @ str_int job_id @ '' started successfully.'') req, [req]))))"

definition list_jobs ::
  "world \<Rightarrow> int \<Rightarrow> bool \<Rightarrow> string option \<Rightarrow> string option \<Rightarrow> string \<times> http_request list" where
  "list_jobs w limit expand_tasks name page_token =
     (let request_data =
            [(''limit'', JInt limit), (''expand_tasks'', JBool expand_tasks)]
            @ if_truthy ''name'' name @ if_truthy ''page_token'' page_token;
          req = request GET ''/api/2.2/jobs/list'' (Some (JObj request_data))
      in (returning_body w ''list_jobs'' req, [req]))"

text \<open>
  \<open>cancel_job\<close> returns a plain sentence on success, not \<open>json.dumps\<close> of anything, and
  its handler writes the tool name \<open>list_jobs\<close>.
\<close>

definition cancel_job :: "world \<Rightarrow> int \<Rightarrow> string \<times> http_request list" where
  "cancel_job w job_id =
     (let req = request POST ''/api/2.2/jobs/runs/cancel-all'' (Some (JObj [(''job_id'', JInt job_id)]))
      in (case perform w req of
            Inl e \<Rightarrow> (error_payload ''list_jobs'' e, [req])
          | Inr r \<Rightarrow> (''Job: '' @ str_int job_id @ '' cancelled succesfully'', [req])))"

definition get_job_details :: "world \<Rightarrow> int \<Rightarrow> string option \<Rightarrow> string \<times> http_request list" where
  "get_job_details w job_id page_token =
     (let request_data = [(''job_id'', JInt job_id)] @ if_truthy ''page_token'' page_token;
          req = request GET ''/api/2.2/jobs/get'' (Some (JObj request_data))
      in (returning_body w ''get_job'' req, [req]))"

subsection \<open>The registry\<close>

text \<open>
  \<open>discover_tools\<close> collects every object of the module that the \<open>tool\<close> decorator
  made; the decorator registers a function under the function's own name. A call is a
  tool together with its arguments.
\<close>

datatype tool_call =
    List_service_principal "string option" "int option" "string option" "string option"
      "int option" "string option" "string option"
  | Create_service_principal string bool "string option"
  | Get_service_principal_details int
  | Delete_service_principal int
  | List_of_scopes
  | Create_scope string string "string option"
  | Add_secret string string "string option" "string option"
  | Delete_secret string string
  | Delete_scope string
  | Get_secret string string
  | Create_acl_scopes string string string
  | List_acl_scopes string
  | Delete_acl_scopes string string
  | List_clusters
  | Terminate_clusters string
  | Start_cluster string
  | Get_cluster_info string
  | Restart_cluster string
  | Start_job int "string option"
  | List_jobs int bool "string option" "string option"
  | Cancel_job int
  | Get_job_details int "string option"

fun tool_name :: "tool_call \<Rightarrow> string" where
  "tool_name (List_service_principal a b c d e f g) = ''list_service_principal''"
| "tool_name (Create_service_principal a b c) = ''create_service_principal''"
| "tool_name (Get_service_principal_details a) = ''get_service_principal_details''"
| "tool_name (Delete_service_principal a) = ''delete_service_principal''"
| "tool_name List_of_scopes = ''list_of_scopes''"
| "tool_name (Create_scope a b c) = ''create_scope''"
| "tool_name (Add_secret a b c d) = ''add_secret''"
| "tool_name (Delete_secret a b) = ''delete_secret''"
| "tool_name (Delete_scope a) = ''delete_scope''"
| "tool_name (Get_secret a b) = ''get_secret''"
| "tool_name (Create_acl_scopes a b c) = ''create_acl_scopes''"
| "tool_name (List_acl_scopes a) = ''list_acl_scopes''"
| "tool_name (Delete_acl_scopes a b) = ''delete_acl_scopes''"
| "tool_name List_clusters = ''list_clusters''"
| "tool_name (Terminate_clusters a) = ''terminate_clusters''"
| "tool_name (Start_cluster a) = ''start_cluster''"
| "tool_name (Get_cluster_info a) = ''get_cluster_info''"
| "tool_name (Restart_cluster a) = ''restart_cluster''"
| "tool_name (Start_job a b) = ''start_job''"
| "tool_name (List_jobs a b c d) = ''list_jobs''"
| "tool_name (Cancel_job a) = ''cancel_job''"
| "tool_name (Get_job_details a b) = ''get_job_details''"

fun invoke :: "world \<Rightarrow> tool_call \<Rightarrow> string \<times> http_request list" where
  "invoke w (List_service_principal a b c d e f g) = list_service_principal w a b c d e f g"
| "invoke w (Create_service_principal a b c) = create_service_principal w a b c"
| "invoke w (Get_service_principal_details a) = get_service_principal_details w a"
| "invoke w (Delete_service_principal a) = delete_service_principal w a"
| "invoke w List_of_scopes = list_of_scopes w"
| "invoke w (Create_scope a b c) = create_scope w a b c"
| "invoke w (Add_secret a b c d) = add_secret w a b c d"
| "invoke w (Delete_secret a b) = delete_secret w a b"
| "invoke w (Delete_scope a) = delete_scope w a"
| "invoke w (Get_secret a b) = get_secret w a b"
| "invoke w (Create_acl_scopes a b c) = create_acl_scopes w a b c"
| "invoke w (List_acl_scopes a) = list_acl_scopes w a"
| "invoke w (Delete_acl_scopes a b) = delete_acl_scopes w a b"
| "invoke w List_clusters = list_clusters w"
| "invoke w (Terminate_clusters a) = terminate_clusters w a"
| "invoke w (Start_cluster a) = start_cluster w a"
| "invoke w (Get_cluster_info a) = get_cluster_info w a"
| "invoke w (Restart_cluster a) = restart_cluster w a"
| "invoke w (Start_job a b) = start_job w a b"
| "invoke w (List_jobs a b c d) = list_jobs w a b c d"
| "invoke w (Cancel_job a) = cancel_job w a"
| "invoke w (Get_job_details a b) = get_job_details w a b"

text \<open>
  What a tool's success text is made of: the response body, one field of it, or a
  sentence that the tool writes from its own arguments. The sentence is a function of
  the call alone; the response has no part in it. \<open>cancel_job\<close> and \<open>get_secret\<close>
  are of none of these kinds.
\<close>

datatype success_kind = Whole_body | Field_of_body string | Own_message string

fun success_kind_of :: "tool_call \<Rightarrow> success_kind option" where
  "success_kind_of (List_service_principal a b c d e f g) = Some Whole_body"
| "success_kind_of (Create_service_principal display_name active application_id) = Some Whole_body"
| "success_kind_of (Get_service_principal_details id') = Some Whole_body"
| "success_kind_of (Delete_service_principal id') =
     Some (Own_message (''Service Principal with ID '' @ str_int id' @ '' deleted successfully.''))"
| "success_kind_of List_of_scopes = Some (Field_of_body ''scopes'')"
| "success_kind_of (Create_scope scope scope_backend_type initial_manage_principal) =
     Some (Own_message (''Scope '' @ scope @ '' created successfully.''))"
| "success_kind_of (Add_secret scope key string_value bytes_value) =
     Some (Own_message (''Secret with key '' @ key @ '' stored successfully.''))"
| "success_kind_of (Delete_secret scope key) =
     Some (Own_message (''Secret with key '' @ key @ '' deleted successfully.''))"
| "success_kind_of (Delete_scope scope) =
     Some (Own_message (''Scope '' @ scope @ '' deleted successfully.''))"
| "success_kind_of (Get_secret scope key) = None"
| "success_kind_of (Create_acl_scopes scope permission principal') =
     Some (Own_message (''Gave '' @ permission @ '' permission to '' @ principal' @ '' on ''
                        @ scope @ ''.''))"
| "success_kind_of (List_acl_scopes scope) = Some Whole_body"
| "success_kind_of (Delete_acl_scopes scope principal') =
     Some (Own_message (''Deleted permissions for '' @ principal' @ '' on '' @ scope @ ''.''))"
| "success_kind_of List_clusters = Some (Field_of_body ''clusters'')"
| "success_kind_of (Terminate_clusters cluster_id) =
     Some (Own_message (''Cluster '' @ cluster_id @ '' terminated successfully.''))"
| "success_kind_of (Start_cluster cluster_id) =
     Some (Own_message (''Cluster '' @ cluster_id @ '' started successfully.''))"
| "success_kind_of (Get_cluster_info cluster_id) = Some Whole_body"
| "success_kind_of (Restart_cluster cluster_id) =
     Some (Own_message (''Cluster '' @ cluster_id @ '' restarted successfully.''))"
| "success_kind_of (Start_job job_id job_parameters) =
     Some (Own_message (''Job: '' @ str_int job_id @ '' started successfully.''))"
| "success_kind_of (List_jobs limit expand_tasks name page_token) = Some Whole_body"
| "success_kind_of (Cancel_job job_id) = None"
| "success_kind_of (Get_job_details job_id page_token) = Some Whole_body"

text \<open>The status object around such a sentence.\<close>

definition status_object :: "string \<Rightarrow> json" where
  "status_object m = JObj [(''status'', JStr ''Success''), (''message'', JStr m)]"

text \<open>Two endpoints to run the tools against: one that answers 200, one that is down.\<close>

definition ok_response :: "json \<Rightarrow> http_response" where
  "ok_response body =
     \<lparr>status_code = 200, reason = ''OK'', response_url = [], response_json = Inr body\<rparr>"

definition mock_world :: "json \<Rightarrow> world" where
  "mock_world body =
     \<lparr>send = (\<lambda>req. Returns (ok_response body)),
      loads = (\<lambda>s. Inl (PyExn JSONDecodeError ''Expecting value: line 1 column 1 (char 0)'')),
      dbutils = None\<rparr>"

definition down_world :: world where
  "down_world =
     \<lparr>send = (\<lambda>req. Raises (PyExn ConnectionError ''connection refused'')),
      loads = (\<lambda>s. Inl (PyExn JSONDecodeError ''Expecting value: line 1 column 1 (char 0)'')),
      dbutils = None\<rparr>"

text \<open>An endpoint that answers 200 with a body that is not JSON text.\<close>

definition no_json_world :: world where
  "no_json_world =
     \<lparr>send = (\<lambda>req. Returns \<lparr>status_code = 200, reason = ''OK'', response_url = [],
                              response_json = Inl (PyExn JSONDecodeError
                                ''Expecting value: line 1 column 1 (char 0)'')\<rparr>),
      loads = (\<lambda>s. Inl (PyExn JSONDecodeError ''Expecting value: line 1 column 1 (char 0)'')),
      dbutils = None\<rparr>"

section \<open>The request and response adapter (agent_model.py)\<close>

text \<open>
  The messages of the conversation, each with its text. The adapter builds the first
  three; the graph's final state may also hold tool results.
\<close>

datatype message = HumanMessage string | AIMessage string | SystemMessage string | ToolMessage string

fun content :: "message \<Rightarrow> string" where
  "content (HumanMessage c) = c"
| "content (AIMessage c) = c"
| "content (SystemMessage c) = c"
| "content (ToolMessage c) = c"

record agent_response =
  response_id :: string
  output_items :: "json list"

definition create_text_output_item :: "string \<Rightarrow> string \<Rightarrow> json" where
  "create_text_output_item text' id' =
     JObj [(''type'', JStr ''message''),
           (''id'', JStr id'),
           (''content'', JList [JObj [(''type'', JStr ''output_text''), (''text'', JStr text')]]),
           (''role'', JStr ''assistant'')]"

text \<open>
  \<open>ResponsesAgentResponse(id=str(uuid.uuid4()), output=[create_text_output_item(text,
  str(uuid.uuid4()))])\<close>: the two fresh identifiers are parameters, in the order the
  call draws them.
\<close>

definition text_response :: "string \<Rightarrow> string \<Rightarrow> string \<Rightarrow> agent_response" where
  "text_response rid oid text' = \<lparr>response_id = rid, output_items = [create_text_output_item text' oid]\<rparr>"

text \<open>\<open>repr\<close> of a key without quotes in it, which is what \<open>str\<close> of a KeyError shows.\<close>

definition key_error :: "string \<Rightarrow> pyexn" where
  "key_error k = PyExn KeyError ([CHR 0x27] @ k @ [CHR 0x27])"

text \<open>\<open>v[key]\<close> with a string key: only a dictionary has one.\<close>

definition subscript :: "json \<Rightarrow> string \<Rightarrow> pyexn + json" where
  "subscript v key =
     (case v of
        JObj kvs \<Rightarrow> (case map_of kvs key of Some x \<Rightarrow> Inr x | None \<Rightarrow> Inl (key_error key))
      | JList xs \<Rightarrow> Inl (PyExn TypeError ''list indices must be integers or slices, not str'')
      | JStr s \<Rightarrow> Inl (PyExn TypeError ''string indices must be integers'')
      | _ \<Rightarrow> Inl (PyExn TypeError
                 ([CHR 0x27] @ type_name v @ [CHR 0x27] @ '' object is not subscriptable'')))"

text \<open>
  \<open>[item.get("text", "") for item in content if isinstance(item, dict) and "text" in item]\<close>
\<close>

fun text_values :: "json list \<Rightarrow> json list" where
  "text_values [] = []"
| "text_values (JObj kvs # items) =
     (case map_of kvs ''text'' of
        Some v \<Rightarrow> v # text_values items
      | None \<Rightarrow> text_values items)"
| "text_values (item # items) = text_values items"

text \<open>\<open>sep.join(values)\<close>: a TypeError at the first value that is not a string.\<close>

fun strings_of :: "nat \<Rightarrow> json list \<Rightarrow> pyexn + string list" where
  "strings_of i [] = Inr []"
| "strings_of i (JStr s # vs) =
     (case strings_of (Suc i) vs of Inl e \<Rightarrow> Inl e | Inr ss \<Rightarrow> Inr (s # ss))"
| "strings_of i (v # vs) =
     Inl (PyExn TypeError (''sequence item '' @ str_nat i @ '': expected str instance, ''
                           @ type_name v @ '' found''))"

definition str_join :: "string \<Rightarrow> json list \<Rightarrow> pyexn + string" where
  "str_join sep vs = (case strings_of 0 vs of Inl e \<Rightarrow> Inl e | Inr ss \<Rightarrow> Inr (join sep ss))"

text \<open>
  A message class applied to \<open>content\<close>: the classes accept a string (a list never
  reaches them here, the adapter has joined it) and refuse anything else.
\<close>

definition construct :: "(string \<Rightarrow> message) \<Rightarrow> json \<Rightarrow> pyexn + message list" where
  "construct cls c =
     (case c of
        JStr s \<Rightarrow> Inr [cls s]
      | _ \<Rightarrow> Inl (PyExn ValidationError ''content: Input should be a valid string''))"

text \<open>
  One turn of the loop over \<open>request_dict["input"]\<close>: no message, or one. The
  comparisons read \<open>msg["role"]\<close> anew each time, to the same outcome, so it is read
  once here.
\<close>

definition translate_item :: "json \<Rightarrow> pyexn + message list" where
  "translate_item msg =
     (case subscript msg ''content'' of
        Inl e \<Rightarrow> Inl e
      | Inr c0 \<Rightarrow>
          (case (case c0 of
                   JList parts \<Rightarrow> (case str_join '' '' (text_values parts) of
                                     Inl e \<Rightarrow> Inl e
                                   | Inr s \<Rightarrow> Inr (JStr s))
                 | _ \<Rightarrow> Inr c0) of
             Inl e \<Rightarrow> Inl e
           | Inr c \<Rightarrow>
               (case subscript msg ''role'' of
                  Inl e \<Rightarrow> Inl e
                | Inr role \<Rightarrow>
                    if role = JStr ''user'' then construct HumanMessage c
                    else if role = JStr ''assistant'' then construct AIMessage c
                    else if role = JStr ''system'' then construct SystemMessage c
                    else Inr [])))"

fun translate :: "json list \<Rightarrow> pyexn + message list" where
  "translate [] = Inr []"
| "translate (msg # msgs) =
     (case translate_item msg of
        Inl e \<Rightarrow> Inl e
      | Inr ms \<Rightarrow> (case translate msgs of Inl e \<Rightarrow> Inl e | Inr rest \<Rightarrow> Inr (ms @ rest)))"

text \<open>
  What \<open>len(x)\<close> and \<open>for msg in x\<close> make of the value under \<open>input\<close>: the items of a
  list, the keys of a dictionary, the characters of a string, a TypeError otherwise.
\<close>

definition items_of :: "json \<Rightarrow> pyexn + json list" where
  "items_of v =
     (case v of
        JList xs \<Rightarrow> Inr xs
      | JObj kvs \<Rightarrow> Inr (map (\<lambda>kv. JStr (fst kv)) kvs)
      | JStr s \<Rightarrow> Inr (map (\<lambda>c. JStr [c]) s)
      | _ \<Rightarrow> Inl (PyExn TypeError
                 (''object of type '' @ [CHR 0x27] @ type_name v @ [CHR 0x27] @ '' has no len()'')))"

text \<open>
  \<open>predict\<close>. The compiled graph is the parameter \<open>app\<close>: given the initial messages
  it raises or returns the messages of its final state. The result comes with the list
  of the graph's invocations, each recorded by the messages it was given. The adapter's
  \<open>try\<close> block spans the invocation and the reading of its result, and nothing before.
\<close>

definition predict ::
  "(message list \<Rightarrow> pyexn + message list) \<Rightarrow> string \<Rightarrow> string \<Rightarrow> (string \<times> json) list
     \<Rightarrow> (pyexn + agent_response) \<times> message list list" where
  "predict app rid oid request_dict =
     (case map_of request_dict ''input'' of
        None \<Rightarrow> (Inr (text_response rid oid ''Error: Model received invalid request format.''), [])
      | Some inp \<Rightarrow>
          (case items_of inp of
             Inl e \<Rightarrow> (Inl e, [])
           | Inr msgs \<Rightarrow>
               (case translate msgs of
                  Inl e \<Rightarrow> (Inl e, [])
                | Inr langgraph_messages \<Rightarrow>
                    (case app langgraph_messages of
                       Inl e \<Rightarrow>
                         (Inr (text_response rid oid (''Sorry, an error occurred: '' @ str_exn e)),
                          [langgraph_messages])
                     | Inr [] \<Rightarrow>
                         (Inr (text_response rid oid
                                 (''Sorry, an error occurred: '' @ ''list index out of range'')),
                          [langgraph_messages])
                     | Inr (m # ms) \<Rightarrow>
                         (Inr (text_response rid oid (content (last (m # ms)))),
                          [langgraph_messages])))))"

subsection \<open>The translation in the words of the specification\<close>

text \<open>
  An inbound message as the interface types it: a dictionary with a \<open>role\<close> and a
  \<open>content\<close>, the content a string or a list of parts; a part that is a dictionary
  with a \<open>text\<close> key holds a string there.
\<close>

fun text_parts_ok :: "json list \<Rightarrow> bool" where
  "text_parts_ok [] = True"
| "text_parts_ok (JObj kvs # parts) =
     ((case map_of kvs ''text'' of Some (JStr t) \<Rightarrow> True | Some v \<Rightarrow> False | None \<Rightarrow> True)
      \<and> text_parts_ok parts)"
| "text_parts_ok (part # parts) = text_parts_ok parts"

definition well_formed_message :: "json \<Rightarrow> bool" where
  "well_formed_message msg =
     (case msg of
        JObj kvs \<Rightarrow>
          (case map_of kvs ''role'' of
             None \<Rightarrow> False
           | Some r \<Rightarrow>
               (case map_of kvs ''content'' of
                  Some (JStr s) \<Rightarrow> True
                | Some (JList parts) \<Rightarrow> text_parts_ok parts
                | _ \<Rightarrow> False))
      | _ \<Rightarrow> False)"

text \<open>
  The \<open>text\<close> values, in order, of the parts that are dictionaries with a \<open>text\<close>
  key; every other part is passed over.
\<close>

fun part_texts :: "json list \<Rightarrow> string list" where
  "part_texts [] = []"
| "part_texts (JObj kvs # parts) =
     (case map_of kvs ''text'' of
        Some (JStr t) \<Rightarrow> t # part_texts parts
      | _ \<Rightarrow> part_texts parts)"
| "part_texts (part # parts) = part_texts parts"

definition content_text :: "json \<Rightarrow> string" where
  "content_text c =
     (case c of JStr s \<Rightarrow> s | JList parts \<Rightarrow> join '' '' (part_texts parts) | _ \<Rightarrow> [])"

definition field :: "json \<Rightarrow> string \<Rightarrow> json" where
  "field msg k =
     (case msg of
        JObj kvs \<Rightarrow> (case map_of kvs k of Some v \<Rightarrow> v | None \<Rightarrow> JNull)
      | _ \<Rightarrow> JNull)"

text \<open>By role: a user, an assistant or a system message, and nothing for any other role.\<close>

definition message_by_role :: "json \<Rightarrow> message list" where
  "message_by_role msg =
     (if field msg ''role'' = JStr ''user''
        then [HumanMessage (content_text (field msg ''content''))]
      else if field msg ''role'' = JStr ''assistant''
        then [AIMessage (content_text (field msg ''content''))]
      else if field msg ''role'' = JStr ''system''
        then [SystemMessage (content_text (field msg ''content''))]
      else [])"

definition translation :: "json list \<Rightarrow> message list" where
  "translation msgs = concat (map message_by_role msgs)"

text \<open>
  A conversation to run the adapter on: a system and a user message, the user's
  content in parts (two with text, an image part, a stray string), a tool result,
  which has no message class here, and an assistant message.
\<close>

definition sample_input :: "json list" where
  "sample_input =
     [JObj [(''role'', JStr ''system''), (''content'', JStr ''be brief'')],
      JObj [(''role'', JStr ''user''),
            (''content'', JList [JObj [(''type'', JStr ''input_text''), (''text'', JStr ''list'')],
                                 JObj [(''type'', JStr ''input_image'')],
                                 JStr ''stray'',
                                 JObj [(''type'', JStr ''input_text''), (''text'', JStr ''clusters'')]])],
      JObj [(''role'', JStr ''tool''), (''content'', JStr ''[]'')],
      JObj [(''role'', JStr ''assistant''), (''content'', JStr ''none running'')]]"

section \<open>The schema normalization (agent_model.py)\<close>

text \<open>
  \<open>fix_schema_recursive\<close> deletes a key from the dictionaries it is given, in place, so
  its model has a store: dictionaries and lists are objects of the store, held by
  reference, and the other values are immediate.
\<close>

datatype pyval = VNone | VBool bool | VInt int | VStr string | VRef nat

datatype pyobj = ODict "(string \<times> pyval) list" | OList "pyval list"

type_synonym store = "nat \<Rightarrow> pyobj option"

text \<open>\<open>del obj[key]\<close>, on the items of a dictionary.\<close>

definition without :: "string \<Rightarrow> (string \<times> 'a) list \<Rightarrow> (string \<times> 'a) list" where
  "without key kvs = filter (\<lambda>kv. fst kv \<noteq> key) kvs"

text \<open>
  The function, with the depth the interpreter still allows as its first argument:
  a call at depth 0 is Python's RecursionError, the value \<open>None\<close> here. A call returns
  \<open>obj\<close> itself and the store it leaves. The loops discard what the inner calls
  return; \<open>list(obj.items())\<close> is read after the deletion.
\<close>

fun fix_schema_recursive :: "nat \<Rightarrow> pyval \<Rightarrow> store \<Rightarrow> (pyval \<times> store) option"
  and fix_each :: "nat \<Rightarrow> pyval list \<Rightarrow> store \<Rightarrow> store option" where
  "fix_schema_recursive 0 obj s = None"
| "fix_schema_recursive (Suc n) (VRef a) s =
     (case s a of
        Some (ODict kvs) \<Rightarrow>
          (let s1 = (if ''additionalProperties'' \<in> fst ` set kvs
                     then s(a \<mapsto> ODict (without ''additionalProperties'' kvs)) else s)
           in (case s1 a of
                 Some (ODict kvs1) \<Rightarrow>
                   (case fix_each n (map snd kvs1) s1 of
                      None \<Rightarrow> None
                    | Some s2 \<Rightarrow> Some (VRef a, s2))
               | _ \<Rightarrow> Some (VRef a, s1)))
      | Some (OList items) \<Rightarrow>
          (case fix_each n items s of
             None \<Rightarrow> None
           | Some s2 \<Rightarrow> Some (VRef a, s2))
      | None \<Rightarrow> Some (VRef a, s))"
| "fix_schema_recursive (Suc n) obj s = Some (obj, s)"
| "fix_each n [] s = Some s"
| "fix_each n (v # vs) s =
     (case fix_schema_recursive n v s of
        None \<Rightarrow> None
      | Some r \<Rightarrow> fix_each n vs (snd r))"

text \<open>
  The nested value that a store holds at a value, read to a given depth: \<open>None\<close> when
  the structure is deeper (or cyclic), or when a reference dangles.
\<close>

fun read :: "nat \<Rightarrow> store \<Rightarrow> pyval \<Rightarrow> json option"
  and read_items :: "nat \<Rightarrow> store \<Rightarrow> (string \<times> pyval) list \<Rightarrow> (string \<times> json) list option"
  and read_all :: "nat \<Rightarrow> store \<Rightarrow> pyval list \<Rightarrow> json list option" where
  "read 0 s v = None"
| "read (Suc n) s VNone = Some JNull"
| "read (Suc n) s (VBool b) = Some (JBool b)"
| "read (Suc n) s (VInt i) = Some (JInt i)"
| "read (Suc n) s (VStr x) = Some (JStr x)"
| "read (Suc n) s (VRef a) =
     (case s a of
        None \<Rightarrow> None
      | Some (ODict kvs) \<Rightarrow> map_option JObj (read_items n s kvs)
      | Some (OList items) \<Rightarrow> map_option JList (read_all n s items))"
| "read_items n s [] = Some []"
| "read_items n s (kv # kvs) =
     (case read n s (snd kv) of
        None \<Rightarrow> None
      | Some t \<Rightarrow> map_option (\<lambda>ts. (fst kv, t) # ts) (read_items n s kvs))"
| "read_all n s [] = Some []"
| "read_all n s (v # vs) =
     (case read n s v of
        None \<Rightarrow> None
      | Some t \<Rightarrow> map_option (\<lambda>ts. t # ts) (read_all n s vs))"

text \<open>
  The normalization in the words of the specification, as a transform of nested
  values: the field \<open>additionalProperties\<close> goes from every mapping, at every depth,
  also inside sequences.
\<close>

fun strip :: "json \<Rightarrow> json" where
  "strip (JObj kvs) =
     JObj (without ''additionalProperties'' (map (\<lambda>kv. (fst kv, strip (snd kv))) kvs))"
| "strip (JList xs) = JList (map strip xs)"
| "strip v = v"

text \<open>No mapping of the value, at any depth, has the field.\<close>

fun clean :: "json \<Rightarrow> bool" where
  "clean (JObj kvs) =
     (''additionalProperties'' \<notin> fst ` set kvs \<and> list_all (\<lambda>kv. clean (snd kv)) kvs)"
| "clean (JList xs) = list_all clean xs"
| "clean v = True"

text \<open>
  A schema in a store: an object with an open shape, whose one property is an array
  of objects with an open shape.
\<close>

definition schema_store :: store where
  "schema_store =
     [0 \<mapsto> ODict [(''type'', VStr ''object''),
                   (''additionalProperties'', VBool False),
                   (''properties'', VRef 1)],
      1 \<mapsto> ODict [(''tags'', VRef 2)],
      2 \<mapsto> ODict [(''type'', VStr ''array''), (''anyOf'', VRef 3)],
      3 \<mapsto> OList [VRef 4, VNone],
      4 \<mapsto> ODict [(''additionalProperties'', VBool True), (''type'', VStr ''object'')]]"

text \<open>
  How a call may change a store: an object stays as it is, or it is a dictionary that
  has lost the field.
\<close>

definition shrink_obj :: "pyobj \<Rightarrow> pyobj" where
  "shrink_obj ob =
     (case ob of
        ODict kvs \<Rightarrow> ODict (without ''additionalProperties'' kvs)
      | OList items \<Rightarrow> OList items)"

definition shrinks :: "store \<Rightarrow> store \<Rightarrow> bool" where
  "shrinks s s' = (\<forall>a. s' a = s a \<or> s' a = map_option shrink_obj (s a))"

text \<open>The normalization on one item of a mapping.\<close>

abbreviation strip_item :: "string \<times> json \<Rightarrow> string \<times> json" where
  "strip_item kv \<equiv> (fst kv, strip (snd kv))"

text \<open>The value that \<open>schema_store\<close> holds at reference 0, and its normal form.\<close>

definition schema_value :: json where
  "schema_value =
     JObj [(''type'', JStr ''object''),
           (''additionalProperties'', JBool False),
           (''properties'',
            JObj [(''tags'',
                   JObj [(''type'', JStr ''array''),
                         (''anyOf'', JList [JObj [(''additionalProperties'', JBool True),
                                                  (''type'', JStr ''object'')],
                                            JNull])])])]"

definition schema_value_fixed :: json where
  "schema_value_fixed =
     JObj [(''type'', JStr ''object''),
           (''properties'',
            JObj [(''tags'',
                   JObj [(''type'', JStr ''array''),
                         (''anyOf'', JList [JObj [(''type'', JStr ''object'')], JNull])])])]"


section \<open>Properties of the REST tools\<close>

lemma perform_ok:
  "send w req = Returns r \<Longrightarrow> status_code r < 400 \<or> 600 \<le> status_code r
   \<Longrightarrow> perform w req = Inr r"
  by (auto simp: perform_def raise_for_status_def)

lemma returning_body_ok:
  "perform w req = Inr r \<Longrightarrow> response_json r = Inr body
   \<Longrightarrow> returning_body w t req = json_dumps body"
  by (simp add: returning_body_def)

lemma returning_field_ok:
  "perform w req = Inr r \<Longrightarrow> response_json r = Inr (JObj kvs) \<Longrightarrow>
   returning_field w t f req = json_dumps (case map_of kvs f of Some x \<Rightarrow> x | None \<Rightarrow> JList [])"
  by (simp add: returning_field_def py_get_def)

lemma returning_message_ok:
  "perform w req = Inr r \<Longrightarrow> returning_message w t m req = success_payload m"
  by (simp add: returning_message_def)

lemmas tool_defs =
  list_service_principal_def create_service_principal_def get_service_principal_details_def
  delete_service_principal_def list_of_scopes_def create_scope_def add_secret_def
  delete_secret_def delete_scope_def get_secret_def create_acl_scopes_def list_acl_scopes_def
  delete_acl_scopes_def list_clusters_def terminate_clusters_def start_cluster_def
  get_cluster_info_def restart_cluster_def start_job_def list_jobs_def cancel_job_def
  get_job_details_def

lemma mock_world_send: "send (mock_world body) req = Returns (ok_response body)"
  by (simp add: mock_world_def)

lemma ok_response_status: "status_code (ok_response body) = 200"
  by (simp add: ok_response_def)

lemma ok_response_json: "response_json (ok_response body) = Inr body"
  by (simp add: ok_response_def)

subsection \<open>The handler names the tool, except in three tools\<close>

text \<open>
  Every tool whose handler writes its own registered name: when the request the tool
  issued fails, by an exception of the client or by an error status, the tool returns
  the error payload under its registered name.
\<close>

lemma error_payload_names_the_tool:
  assumes "snd (invoke w tc) = [req]"
    and "perform w req = Inl e"
    and "tool_name tc \<notin> {''add_secret'', ''cancel_job'', ''get_job_details''}"
  shows "fst (invoke w tc) = error_payload (tool_name tc) e"
  using assms
  by (cases tc)
     (auto simp: tool_defs Let_def returning_body_def returning_field_def returning_message_def
           split: option.splits sum.splits if_splits)

text \<open>
  C2. The claim: a tool whose HTTP call fails returns a payload whose \<open>tool\<close> key is the
  tool's registered name. \<open>add_secret\<close>, run against an endpoint that refuses the
  connection, returns the payload under the name \<open>create_secret\<close>; its registered name
  is \<open>add_secret\<close>. (\<open>cancel_job\<close> writes \<open>list_jobs\<close> and \<open>get_job_details\<close> writes
  \<open>get_job\<close> in the same way.)
\<close>

theorem add_secret_error_names_other_tool:
  \<open>tool_name (Add_secret ''s1'' ''k1'' (Some ''v'') None) = ''add_secret''
   \<and> invoke down_world (Add_secret ''s1'' ''k1'' (Some ''v'') None)
     = (''{"error": "Databricks API Error: connection refused", "tool": "create_secret"}'',
        [request POST ''/api/2.0/secrets/put''
           (Some (JObj [(''scope'', JStr ''s1''), (''key'', JStr ''k1''),
                        (''string_value'', JStr ''v'')]))])\<close>
proof -
  have \<open>error_payload ''create_secret'' (PyExn ConnectionError ''connection refused'')
        = ''{"error": "Databricks API Error: connection refused", "tool": "create_secret"}''\<close>
    by code_simp
  then show ?thesis
    by (simp add: add_secret_def returning_message_def perform_def down_world_def Let_def
        if_truthy_def)
qed

lemma cancel_job_error_names_other_tool:
  \<open>fst (invoke down_world (Cancel_job 7))
   = ''{"error": "Databricks API Error: connection refused", "tool": "list_jobs"}''\<close>
proof -
  have \<open>error_payload ''list_jobs'' (PyExn ConnectionError ''connection refused'')
        = ''{"error": "Databricks API Error: connection refused", "tool": "list_jobs"}''\<close>
    by code_simp
  then show ?thesis
    by (simp add: cancel_job_def perform_def down_world_def Let_def)
qed

lemma get_job_details_error_names_other_tool:
  \<open>fst (invoke down_world (Get_job_details 7 None))
   = ''{"error": "Databricks API Error: connection refused", "tool": "get_job"}''\<close>
proof -
  have \<open>error_payload ''get_job'' (PyExn ConnectionError ''connection refused'')
        = ''{"error": "Databricks API Error: connection refused", "tool": "get_job"}''\<close>
    by code_simp
  then show ?thesis
    by (simp add: get_job_details_def returning_body_def perform_def down_world_def Let_def
        if_truthy_def)
qed

subsection \<open>What a tool returns on success\<close>

text \<open>
  C4, the claim as stated fails: \<open>delete_secret\<close>, answered with status 200 and the
  body \<open>{}\<close>, returns a status object that it wrote itself; the serialized body is
  \<open>{}\<close>, and the body has no field to extract. And \<open>list_clusters\<close>, answered with
  status 200 and a body that is not JSON text, returns the error payload.
\<close>

theorem tool_success_counterexample:
  \<open>fst (invoke (mock_world (JObj [])) (Delete_secret ''s1'' ''k1''))
     = ''{"status": "Success", "message": "Secret with key k1 deleted successfully."}''
   \<and> json_dumps (JObj []) = ''{}''
   \<and> fst (invoke no_json_world List_clusters)
     = ''{"error": "Databricks API Error: Expecting value: line 1 column 1 (char 0)", "tool": "list_clusters"}''\<close>
proof -
  have \<open>success_payload (''Secret with key '' @ ''k1'' @ '' deleted successfully.'')
        = ''{"status": "Success", "message": "Secret with key k1 deleted successfully."}''\<close>
    by code_simp
  moreover have \<open>error_payload ''list_clusters''
          (PyExn JSONDecodeError ''Expecting value: line 1 column 1 (char 0)'')
        = ''{"error": "Databricks API Error: Expecting value: line 1 column 1 (char 0)", "tool": "list_clusters"}''\<close>
    by code_simp
  ultimately show ?thesis
    by (simp add: delete_secret_def list_clusters_def returning_message_def returning_field_def
        perform_def raise_for_status_def mock_world_def no_json_world_def ok_response_def Let_def)
qed

text \<open>
  On success \<open>cancel_job\<close> returns a sentence that is not \<open>json.dumps\<close> of any
  value: no JSON text starts with the letter J.
\<close>

lemma digit_chars:
  "char_of (48::nat) = CHR ''0''" "char_of (49::nat) = CHR ''1''" "char_of (50::nat) = CHR ''2''"
  "char_of (51::nat) = CHR ''3''" "char_of (52::nat) = CHR ''4''" "char_of (53::nat) = CHR ''5''"
  "char_of (54::nat) = CHR ''6''" "char_of (55::nat) = CHR ''7''" "char_of (56::nat) = CHR ''8''"
  "char_of (57::nat) = CHR ''9''"
  by code_simp+

lemma str_nat_first: "str_nat n \<noteq> [] \<and> hd (str_nat n) \<in> set ''0123456789''"
proof (induction n rule: str_nat.induct)
  case (1 n)
  show ?case
  proof (cases "n < 10")
    case True
    then have "n \<in> {0, 1, 2, 3, 4, 5, 6, 7, 8, 9}" by auto
    then show ?thesis
      by (subst (1 2) str_nat.simps) (auto simp: digit_chars)
  next
    case False
    with 1 show ?thesis
      by (subst (1 2) str_nat.simps) auto
  qed
qed

lemma json_dumps_first:
  "json_dumps v \<noteq> [] \<and> hd (json_dumps v) \<in> set ''ntf-0123456789[{'' \<union> {CHR 0x22}"
proof (cases v)
  case (JInt i)
  with str_nat_first [of "nat i"] str_nat_first [of "nat (- i)"] show ?thesis
    by (auto simp: str_int_def)
qed (auto simp: encode_str_def)

lemma cancel_job_text_is_not_json:
  "fst (invoke (mock_world body) (Cancel_job 7)) = ''Job: 7 cancelled succesfully''
   \<and> json_dumps v \<noteq> ''Job: 7 cancelled succesfully''"
proof -
  have "str_int 7 = ''7''"
    by code_simp
  then have "fst (invoke (mock_world body) (Cancel_job 7)) = ''Job: 7 cancelled succesfully''"
    by (simp add: cancel_job_def perform_def raise_for_status_def mock_world_def
        ok_response_def Let_def)
  moreover have "json_dumps v \<noteq> ''Job: 7 cancelled succesfully''"
    using json_dumps_first [of v] by auto
  ultimately show ?thesis by simp
qed

text \<open>\<open>get_secret\<close> issues no HTTP request, whatever \<open>dbutils\<close> does.\<close>

lemma get_secret_issues_no_request: "snd (invoke w (Get_secret scope key)) = []"
  by (simp add: get_secret_def split: option.splits sum.splits)

text \<open>
  C4, amended. For every tool that issues an HTTP request, \<open>cancel_job\<close> apart: when
  the request is answered without an error status, the tool returns \<open>json.dumps\<close> of
  a status object whose message is the tool's own sentence, fixed by the call's
  arguments, whatever the response holds (the eleven tools that change state); of the
  response body, when it parses (the seven tools that read it whole); or of the value
  under \<open>scopes\<close> or \<open>clusters\<close> of the body, an empty list when the key is absent,
  when the body parses to a dictionary (\<open>list_of_scopes\<close>, \<open>list_clusters\<close>).
\<close>

theorem tool_success_text:
  assumes "success_kind_of tc = Some k"
    and "snd (invoke w tc) = [req]"
    and "send w req = Returns r"
    and "status_code r < 400 \<or> 600 \<le> status_code r"
  shows "case k of
           Own_message m \<Rightarrow> fst (invoke w tc) = json_dumps (status_object m)
         | Whole_body \<Rightarrow>
             (\<forall>body. response_json r = Inr body \<longrightarrow> fst (invoke w tc) = json_dumps body)
         | Field_of_body f \<Rightarrow>
             (\<forall>kvs. response_json r = Inr (JObj kvs) \<longrightarrow>
                fst (invoke w tc)
                = json_dumps (case map_of kvs f of Some x \<Rightarrow> x | None \<Rightarrow> JList []))"
proof -
  have p: "perform w req = Inr r"
    using assms(3,4) by (rule perform_ok)
  show ?thesis
    using assms(1,2) p
    by (cases tc)
       (auto simp: tool_defs Let_def returning_body_def returning_field_def
          returning_message_def success_payload_def status_object_def py_get_def
          split: option.splits sum.splits if_splits)
qed

theorem tool_success_text_witness:
  \<open>success_kind_of (Delete_secret ''s1'' ''k1'')
     = Some (Own_message ''Secret with key k1 deleted successfully.'')
   \<and> snd (invoke down_world (Delete_secret ''s1'' ''k1''))
       = [request POST ''/api/2.0/secrets/delete''
            (Some (JObj [(''scope'', JStr ''s1''), (''key'', JStr ''k1'')]))]
   \<and> status_code (ok_response (JList [])) < 400
   \<and> fst (invoke (mock_world (JList [])) (Delete_secret ''s1'' ''k1''))
       = ''{"status": "Success", "message": "Secret with key k1 deleted successfully."}''
   \<and> success_kind_of List_of_scopes = Some (Field_of_body ''scopes'')
   \<and> fst (invoke (mock_world (JObj [(''scopes'', JList [JStr ''a''])])) List_of_scopes) = ''["a"]''\<close>
proof -
  let ?req = "request POST ''/api/2.0/secrets/delete''
                (Some (JObj [(''scope'', JStr ''s1''), (''key'', JStr ''k1'')]))"
  let ?body = "JObj [(''scopes'', JList [JStr ''a''])]"
  have h1: "success_kind_of (Delete_secret ''s1'' ''k1'')
            = Some (Own_message ''Secret with key k1 deleted successfully.'')"
    by simp
  have h2: "snd (invoke w (Delete_secret ''s1'' ''k1'')) = [?req]" for w
    by (simp add: delete_secret_def Let_def)
  have h4: "status_code (ok_response b) < 400 \<or> 600 \<le> status_code (ok_response b)" for b
    by (simp add: ok_response_status)
  have t1: \<open>json_dumps (status_object ''Secret with key k1 deleted successfully.'')
            = ''{"status": "Success", "message": "Secret with key k1 deleted successfully."}''\<close>
    by code_simp
  have a: \<open>fst (invoke (mock_world (JList [])) (Delete_secret ''s1'' ''k1''))
            = ''{"status": "Success", "message": "Secret with key k1 deleted successfully."}''\<close>
    using tool_success_text [OF h1 h2 mock_world_send h4] t1 by simp
  have g1: "success_kind_of List_of_scopes = Some (Field_of_body ''scopes'')"
    by simp
  have g2: "snd (invoke (mock_world ?body) List_of_scopes) = [request GET ''/api/2.0/secrets/scopes/list'' None]"
    by (simp add: list_of_scopes_def Let_def)
  have t2: \<open>json_dumps (JList [JStr ''a'']) = ''["a"]''\<close>
    by code_simp
  have b: \<open>fst (invoke (mock_world ?body) List_of_scopes) = ''["a"]''\<close>
    using tool_success_text [OF g1 g2 mock_world_send h4] t2 by (simp add: ok_response_json)
  show ?thesis
    using h1 h2 a b by (simp add: ok_response_status)
qed

subsection \<open>The two scenarios\<close>

text \<open>
  C8. \<open>list_clusters\<close>, answered with status 200 and the body
  \<open>{"clusters": [{"cluster_id": "c1"}]}\<close>, returns exactly the text
  \<open>[{"cluster_id": "c1"}]\<close>: the list under \<open>clusters\<close>, not the envelope.
\<close>

theorem list_clusters_scenario:
  assumes "snd (list_clusters w) = [req]"
    and "send w req = Returns r" and "status_code r = 200"
    and "response_json r = Inr (JObj [(''clusters'', JList [JObj [(''cluster_id'', JStr ''c1'')]])])"
  shows \<open>fst (list_clusters w) = ''[{"cluster_id": "c1"}]''\<close>
proof -
  have p: "perform w req = Inr r"
    using assms by (simp add: perform_ok)
  have \<open>json_dumps (JList [JObj [(''cluster_id'', JStr ''c1'')]]) = ''[{"cluster_id": "c1"}]''\<close>
    by code_simp
  then show ?thesis
    using assms(1) returning_field_ok [OF p assms(4)]
    by (simp add: list_clusters_def Let_def)
qed

theorem list_clusters_scenario_witness:
  \<open>snd (list_clusters (mock_world (JObj [(''clusters'', JList [JObj [(''cluster_id'', JStr ''c1'')]])])))
     = [request GET ''/api/2.1/clusters/list'' None]
   \<and> status_code (ok_response (JObj [(''clusters'', JList [JObj [(''cluster_id'', JStr ''c1'')]])])) = 200
   \<and> fst (list_clusters (mock_world (JObj [(''clusters'', JList [JObj [(''cluster_id'', JStr ''c1'')]])])))
       = ''[{"cluster_id": "c1"}]''\<close>
proof -
  let ?body = "JObj [(''clusters'', JList [JObj [(''cluster_id'', JStr ''c1'')]])]"
  have h1: "snd (list_clusters (mock_world ?body)) = [request GET ''/api/2.1/clusters/list'' None]"
    by (simp add: list_clusters_def Let_def)
  show ?thesis
    using h1 list_clusters_scenario [OF h1 mock_world_send ok_response_status ok_response_json]
    by (simp add: ok_response_status)
qed

text \<open>
  C9. \<open>delete_secret(scope="s1", key="k1")\<close>, its POST answered with status 200, returns
  exactly \<open>{"status": "Success", "message": "Secret with key k1 deleted successfully."}\<close>.
\<close>

theorem delete_secret_scenario:
  assumes "snd (delete_secret w ''s1'' ''k1'') = [req]"
    and "send w req = Returns r" and "status_code r = 200"
  shows \<open>verb req = POST
         \<and> fst (delete_secret w ''s1'' ''k1'')
           = ''{"status": "Success", "message": "Secret with key k1 deleted successfully."}''\<close>
proof -
  have "perform w req = Inr r"
    using assms by (simp add: perform_ok)
  moreover have \<open>success_payload (''Secret with key '' @ ''k1'' @ '' deleted successfully.'')
         = ''{"status": "Success", "message": "Secret with key k1 deleted successfully."}''\<close>
    by code_simp
  ultimately show ?thesis
    using assms(1) by (auto simp: delete_secret_def returning_message_def Let_def request_def)
qed

theorem delete_secret_scenario_witness:
  \<open>snd (delete_secret (mock_world (JObj [])) ''s1'' ''k1'')
     = [request POST ''/api/2.0/secrets/delete''
          (Some (JObj [(''scope'', JStr ''s1''), (''key'', JStr ''k1'')]))]
   \<and> status_code (ok_response (JObj [])) = 200
   \<and> fst (delete_secret (mock_world (JObj [])) ''s1'' ''k1'')
       = ''{"status": "Success", "message": "Secret with key k1 deleted successfully."}''\<close>
proof -
  let ?w = "mock_world (JObj [])"
  let ?req = "request POST ''/api/2.0/secrets/delete''
                (Some (JObj [(''scope'', JStr ''s1''), (''key'', JStr ''k1'')]))"
  have h1: "snd (delete_secret ?w ''s1'' ''k1'') = [?req]"
    by (simp add: delete_secret_def Let_def)
  show ?thesis
    using h1 delete_secret_scenario [OF h1 mock_world_send ok_response_status]
    by (simp add: ok_response_status)
qed

subsection \<open>Job parameters that do not parse\<close>

text \<open>
  C10. When \<open>job_parameters\<close> is given, is not empty and \<open>json.loads\<close> raises on it,
  \<open>start_job\<close> issues no HTTP request and returns the error payload
  \<open>{"error": ..., "tool": "start_job"}\<close> with the text of that exception.
\<close>

theorem start_job_invalid_parameters:
  assumes "p \<noteq> []" and "loads w p = Inl e"
  shows "start_job w job_id (Some p)
         = (json_dumps (JObj [(''error'', JStr (''Databricks API Error: '' @ str_exn e)),
                              (''tool'', JStr ''start_job'')]), [])"
  using assms by (simp add: start_job_def error_payload_def)

theorem start_job_invalid_parameters_witness:
  \<open>''{bad'' \<noteq> []
   \<and> loads down_world ''{bad''
       = Inl (PyExn JSONDecodeError ''Expecting value: line 1 column 1 (char 0)'')
   \<and> start_job down_world 7 (Some ''{bad'')
       = (''{"error": "Databricks API Error: Expecting value: line 1 column 1 (char 0)", "tool": "start_job"}'',
          [])\<close>
proof -
  have h1: "''{bad'' \<noteq> []"
    by simp
  have h2: "loads down_world ''{bad''
            = Inl (PyExn JSONDecodeError ''Expecting value: line 1 column 1 (char 0)'')"
    by (simp add: down_world_def)
  have t: \<open>json_dumps (JObj [(''error'', JStr (''Databricks API Error: ''
              @ str_exn (PyExn JSONDecodeError ''Expecting value: line 1 column 1 (char 0)''))),
            (''tool'', JStr ''start_job'')])
        = ''{"error": "Databricks API Error: Expecting value: line 1 column 1 (char 0)", "tool": "start_job"}''\<close>
    by code_simp
  show ?thesis
    using h2 t start_job_invalid_parameters [OF h1 h2, of 7] by simp
qed

section \<open>Properties of the adapter\<close>

lemma strings_of_ok:
  "text_parts_ok parts \<Longrightarrow> strings_of i (text_values parts) = Inr (part_texts parts)"
proof (induction parts arbitrary: i rule: text_parts_ok.induct)
  case 1
  then show ?case by simp
next
  case (2 kvs parts)
  then show ?case
    by (auto split: option.splits json.splits)
qed simp_all

lemma translate_item_ok:
  "well_formed_message msg \<Longrightarrow> translate_item msg = Inr (message_by_role msg)"
  by (auto simp: well_formed_message_def translate_item_def message_by_role_def subscript_def
        field_def content_text_def str_join_def strings_of_ok construct_def
      split: json.splits option.splits)

lemma translate_ok:
  "list_all well_formed_message msgs \<Longrightarrow> translate msgs = Inr (translation msgs)"
  by (induction msgs) (simp_all add: translation_def translate_item_ok)

text \<open>
  On a list of well-formed messages \<open>predict\<close> invokes the graph once, on the
  translation, and wraps what comes of it.
\<close>

lemma predict_well_formed:
  assumes "map_of request_dict ''input'' = Some (JList msgs)"
    and "list_all well_formed_message msgs"
  shows "predict app rid oid request_dict
         = (Inr (text_response rid oid
                   (case app (translation msgs) of
                      Inl e \<Rightarrow> ''Sorry, an error occurred: '' @ str_exn e
                    | Inr [] \<Rightarrow> ''Sorry, an error occurred: list index out of range''
                    | Inr (m # ms) \<Rightarrow> content (last (m # ms)))),
            [translation msgs])"
  using assms
  by (simp add: predict_def items_of_def translate_ok split: sum.splits list.splits)

lemma sample_input_well_formed: "list_all well_formed_message sample_input"
  by (simp add: sample_input_def well_formed_message_def)

lemma sample_input_translation:
  "translation sample_input
   = [SystemMessage ''be brief'', HumanMessage ''list clusters'', AIMessage ''none running'']"
  by (simp add: sample_input_def translation_def message_by_role_def field_def content_text_def)

text \<open>
  Whenever the loop over the messages completes, what it yields is the translation by
  role; it fails to complete only where \<open>msg["content"]\<close>, \<open>msg["role"]\<close>, the join
  or a message class raises.
\<close>

lemma strings_of_result:
  "strings_of i (text_values parts) = Inr ss \<Longrightarrow> ss = part_texts parts"
proof (induction parts arbitrary: i ss rule: text_values.induct)
  case 1
  then show ?case by simp
next
  case (2 kvs items)
  show ?case
  proof (cases "map_of kvs ''text''")
    case None
    with 2 show ?thesis by simp
  next
    case (Some v)
    with "2.prems" obtain t where v: "v = JStr t"
      by (cases v) auto
    with Some "2.prems" obtain rest where "strings_of (Suc i) (text_values items) = Inr rest" "ss = t # rest"
      by (auto split: sum.splits)
    with "2.IH"(2) [OF Some] Some v show ?thesis
      by simp
  qed
qed simp_all

lemma subscript_result:
  "subscript v k = Inr x \<Longrightarrow> field v k = x"
  by (cases v) (auto simp: subscript_def field_def split: option.splits)

lemma construct_result:
  "construct cls c = Inr ms \<Longrightarrow> \<exists>s. c = JStr s \<and> ms = [cls s]"
  by (cases c) (auto simp: construct_def)

lemma translate_item_result:
  assumes "translate_item msg = Inr ms"
  shows "ms = message_by_role msg"
proof -
  from assms obtain c0 where c0: "subscript msg ''content'' = Inr c0"
    by (cases "subscript msg ''content''") (auto simp: translate_item_def)
  let ?norm = "case c0 of
                 JList parts \<Rightarrow> (case str_join '' '' (text_values parts) of
                                   Inl e \<Rightarrow> Inl e
                                 | Inr s \<Rightarrow> Inr (JStr s))
               | _ \<Rightarrow> Inr c0"
  from assms c0 obtain c where c: "?norm = Inr c"
    by (cases ?norm) (auto simp: translate_item_def)
  from assms c0 c obtain role where role: "subscript msg ''role'' = Inr role"
    by (cases "subscript msg ''role''") (auto simp: translate_item_def)
  from assms c0 c role
  have rest: "(if role = JStr ''user'' then construct HumanMessage c
               else if role = JStr ''assistant'' then construct AIMessage c
               else if role = JStr ''system'' then construct SystemMessage c
               else Inr []) = Inr ms"
    by (simp add: translate_item_def)
  have ct: "content_text c0 = s" if "c = JStr s" for s
  proof (cases c0)
    case (JList parts)
    with c that obtain ss where "strings_of 0 (text_values parts) = Inr ss" "s = join '' '' ss"
      by (auto simp: str_join_def split: sum.splits)
    with strings_of_result JList show ?thesis
      by (auto simp: content_text_def)
  qed (use c that in \<open>auto simp: content_text_def\<close>)
  have f: "field msg ''content'' = c0" "field msg ''role'' = role"
    using c0 role by (simp_all add: subscript_result)
  from rest show ?thesis
    unfolding message_by_role_def f
    by (auto split: if_splits dest!: construct_result simp: ct)
qed

lemma translate_result:
  "translate msgs = Inr ms \<Longrightarrow> ms = translation msgs"
proof (induction msgs arbitrary: ms)
  case Nil
  then show ?case by (simp add: translation_def)
next
  case (Cons msg msgs)
  from Cons.prems obtain m rest where "translate_item msg = Inr m" "translate msgs = Inr rest"
    "ms = m @ rest"
    by (auto split: sum.splits)
  with Cons.IH translate_item_result show ?case
    by (simp add: translation_def)
qed

subsection \<open>A request without \<open>input\<close>\<close>

text \<open>
  C3. For every request record that has no \<open>input\<close> field, \<open>predict\<close> returns the
  error response (its text says that the request format is invalid) and the compiled
  graph is not invoked: the list of invocations is empty, so no network call is made.
\<close>

theorem predict_without_input:
  assumes "''input'' \<notin> fst ` set request_dict"
  shows "predict app rid oid request_dict
         = (Inr (text_response rid oid ''Error: Model received invalid request format.''), [])"
proof -
  from assms have "map_of request_dict ''input'' = None"
    by (simp add: map_of_eq_None_iff)
  then show ?thesis
    by (simp add: predict_def)
qed

theorem predict_without_input_witness:
  "''input'' \<notin> fst ` set [(''messages'', JList [])]
   \<and> predict (\<lambda>ms. Inr [AIMessage ''hello'']) ''r1'' ''o1'' [(''messages'', JList [])]
     = (Inr \<lparr>response_id = ''r1'',
              output_items = [JObj [(''type'', JStr ''message''), (''id'', JStr ''o1''),
                 (''content'', JList [JObj [(''type'', JStr ''output_text''),
                     (''text'', JStr ''Error: Model received invalid request format.'')]]),
                 (''role'', JStr ''assistant'')]]\<rparr>, [])"
proof -
  have h: "''input'' \<notin> fst ` set [(''messages'', JList [])]"
    by simp
  show ?thesis
    using h predict_without_input [OF h, of "\<lambda>ms. Inr [AIMessage ''hello'']" "''r1''" "''o1''"]
    by (simp add: text_response_def create_text_output_item_def)
qed

subsection \<open>Exceptions at the adapter's boundary\<close>

text \<open>
  The handler of \<open>predict\<close> does what the specification says of it: whenever the
  loop over the messages completes, an exception of the graph's invocation becomes the
  error response with that exception's text.
\<close>

lemma predict_catches_invocation_error:
  assumes "map_of request_dict ''input'' = Some (JList msgs)"
    and "translate msgs = Inr ms"
    and "app ms = Inl e"
  shows "predict app rid oid request_dict
         = (Inr (text_response rid oid (''Sorry, an error occurred: '' @ str_exn e)), [ms])"
  using assms by (simp add: predict_def items_of_def)

text \<open>
  C1. The specification has \<open>predict\<close> answer every request that has an \<open>input\<close>
  field with a response and raise nothing. On the request
  \<open>{"input": [{"role": "user"}]}\<close> the code raises the KeyError of \<open>msg["content"]\<close>
  to its caller and the graph is not invoked: the loop over the messages stands before
  the \<open>try\<close> block, outside the guard and the handler that answer the other faults
  with an error response.
\<close>

theorem predict_raises_without_content:
  "predict (\<lambda>ms. Inr [AIMessage ''hello'']) ''r1'' ''o1''
          [(''input'', JList [JObj [(''role'', JStr ''user'')]])]
   = (Inl (PyExn KeyError ([CHR 0x27] @ ''content'' @ [CHR 0x27])), [])"
  by (simp add: predict_def items_of_def translate_item_def subscript_def key_error_def)

subsection \<open>The translation of the inbound messages\<close>

text \<open>
  C7. The specification has every item of a role other than user, assistant and system
  dropped silently. The code reads \<open>msg["content"]\<close> before it looks at the role: on a
  list with a user message and an item of role \<open>tool\<close> that has no content, the loop
  raises the KeyError, where the translation by role is the one HumanMessage; the
  graph is not invoked.
\<close>

theorem translation_raises_on_other_role:
  "translate [JObj [(''role'', JStr ''user''), (''content'', JStr ''hi'')],
              JObj [(''role'', JStr ''tool'')]]
   = Inl (PyExn KeyError ([CHR 0x27] @ ''content'' @ [CHR 0x27]))
   \<and> translation [JObj [(''role'', JStr ''user''), (''content'', JStr ''hi'')],
                  JObj [(''role'', JStr ''tool'')]]
     = [HumanMessage ''hi'']
   \<and> snd (predict (\<lambda>ms. Inr [AIMessage ''hello'']) ''r1'' ''o1''
            [(''input'', JList [JObj [(''role'', JStr ''user''), (''content'', JStr ''hi'')],
                                JObj [(''role'', JStr ''tool'')]])]) = []"
  by (simp add: predict_def items_of_def translate_item_def subscript_def key_error_def
      translation_def message_by_role_def field_def content_text_def construct_def)

section \<open>Properties of the schema normalization\<close>


lemma without_idem [simp]: "without k (without k kvs) = without k kvs"
  by (simp add: without_def)

lemma without_absent: "k \<notin> fst ` set kvs \<Longrightarrow> without k kvs = kvs"
  by (induction kvs) (auto simp: without_def)

lemma without_keys [simp]: "k \<notin> fst ` set (without k kvs)"
  by (auto simp: without_def)

lemma without_map_snd:
  "without k (map (\<lambda>kv. (fst kv, f (snd kv))) kvs) = map (\<lambda>kv. (fst kv, f (snd kv))) (without k kvs)"
  by (induction kvs) (auto simp: without_def)

lemma shrink_obj_idem [simp]: "shrink_obj (shrink_obj ob) = shrink_obj ob"
  by (cases ob) (simp_all add: shrink_obj_def)

lemma shrinks_refl [simp]: "shrinks s s"
  by (simp add: shrinks_def)

lemma shrinks_trans:
  assumes "shrinks s s1" and "shrinks s1 s2"
  shows "shrinks s s2"
  unfolding shrinks_def
proof
  fix a
  from assms(1) have 1: "s1 a = s a \<or> s1 a = map_option shrink_obj (s a)"
    by (simp add: shrinks_def)
  from assms(2) have 2: "s2 a = s1 a \<or> s2 a = map_option shrink_obj (s1 a)"
    by (simp add: shrinks_def)
  from 1 2 show "s2 a = s a \<or> s2 a = map_option shrink_obj (s a)"
    by (cases "s a") auto
qed

lemma shrinks_upd:
  "s a = Some (ODict kvs) \<Longrightarrow> shrinks s (s(a \<mapsto> ODict (without ''additionalProperties'' kvs)))"
  by (simp add: shrinks_def shrink_obj_def)

lemma shrinks_dict:
  "shrinks s s' \<Longrightarrow> s a = Some (ODict kvs) \<Longrightarrow>
   s' a = Some (ODict kvs) \<or> s' a = Some (ODict (without ''additionalProperties'' kvs))"
  by (auto simp: shrinks_def shrink_obj_def dest: spec [of _ a])

lemma shrinks_list:
  "shrinks s s' \<Longrightarrow> s a = Some (OList items) \<Longrightarrow> s' a = Some (OList items)"
  by (auto simp: shrinks_def shrink_obj_def dest: spec [of _ a])

lemma read_items_without:
  "read_items n s kvs = Some its \<Longrightarrow> read_items n s (without k kvs) = Some (without k its)"
  by (induction kvs arbitrary: its) (auto simp: without_def split: option.splits)

lemma read_items_keys:
  "read_items n s kvs = Some its \<Longrightarrow> map fst its = map fst kvs"
  by (induction kvs arbitrary: its) (auto split: option.splits)

lemma read_items_values:
  "read_items n s kvs = Some its \<Longrightarrow> read_all n s (map snd kvs) = Some (map snd its)"
  by (induction kvs arbitrary: its) (auto split: option.splits)

lemma read_all_items:
  "read_all n s (map snd kvs) = Some ts \<Longrightarrow>
   \<exists>its. read_items n s kvs = Some its \<and> map snd its = ts"
  by (induction kvs arbitrary: ts) (auto split: option.splits)

lemma read_zero:
  "read_all 0 s vs = Some ts \<Longrightarrow> vs = []"
  by (cases vs) auto


text \<open>Reading from a shrunken store gives a value with the same normal form.\<close>

lemma read_shrinks:
  "(\<forall>s s' v t. read n s v = Some t \<longrightarrow> shrinks s s'
      \<longrightarrow> (\<exists>t'. read n s' v = Some t' \<and> strip t' = strip t \<and> (clean t \<longrightarrow> t' = t)))
   \<and> (\<forall>s s' kvs its. read_items n s kvs = Some its \<longrightarrow> shrinks s s'
      \<longrightarrow> (\<exists>its'. read_items n s' kvs = Some its' \<and> map strip_item its' = map strip_item its
            \<and> (list_all (\<lambda>kv. clean (snd kv)) its \<longrightarrow> its' = its)))
   \<and> (\<forall>s s' vs ts. read_all n s vs = Some ts \<longrightarrow> shrinks s s'
      \<longrightarrow> (\<exists>ts'. read_all n s' vs = Some ts' \<and> map strip ts' = map strip ts
            \<and> (list_all clean ts \<longrightarrow> ts' = ts)))"
proof (induction n)
  case 0
  have i: "kvs = [] \<and> its = []" if "read_items 0 s kvs = Some its" for s kvs its
    using that by (cases kvs) auto
  have a: "vs = [] \<and> ts = []" if "read_all 0 s vs = Some ts" for s vs ts
    using that by (cases vs) auto
  show ?case
    by (auto dest!: i a)
next
  case (Suc n)
  have one: "\<exists>t'. read (Suc n) s' v = Some t' \<and> strip t' = strip t \<and> (clean t \<longrightarrow> t' = t)"
    if r: "read (Suc n) s v = Some t" and sh: "shrinks s s'" for s s' v t
  proof (cases v)
    case (VRef a)
    show ?thesis
    proof (cases "s a")
      case None
      with r VRef show ?thesis by simp
    next
      case (Some ob)
      show ?thesis
      proof (cases ob)
        case (ODict kvs)
        with Some r VRef obtain its where its: "read_items n s kvs = Some its" "t = JObj its"
          by auto
        from Suc its(1) sh obtain its' where its': "read_items n s' kvs = Some its'"
          "map strip_item its' = map strip_item its"
          "list_all (\<lambda>kv. clean (snd kv)) its \<longrightarrow> its' = its"
          by blast
        from shrinks_dict [OF sh] Some ODict
        consider "s' a = Some (ODict kvs)" | "s' a = Some (ODict (without ''additionalProperties'' kvs))"
          by blast
        then show ?thesis
        proof cases
          case 1
          with its' its(2) VRef show ?thesis by simp
        next
          case 2
          from read_items_without [OF its'(1)]
          have "read_items n s' (without ''additionalProperties'' kvs)
                = Some (without ''additionalProperties'' its')" .
          with 2 VRef have "read (Suc n) s' v = Some (JObj (without ''additionalProperties'' its'))"
            by simp
          moreover have "strip (JObj (without ''additionalProperties'' its')) = strip t"
            using its'(2) its(2) by (simp add: without_map_snd [symmetric])
          moreover have "JObj (without ''additionalProperties'' its') = t" if "clean t"
            using that its'(3) its(2) by (simp add: without_absent)
          ultimately show ?thesis by blast
        qed
      next
        case (OList items)
        with Some r VRef obtain ts where ts: "read_all n s items = Some ts" "t = JList ts"
          by auto
        from Suc ts(1) sh obtain ts' where "read_all n s' items = Some ts'"
          "map strip ts' = map strip ts" "list_all clean ts \<longrightarrow> ts' = ts"
          by blast
        with shrinks_list [OF sh] Some OList ts(2) VRef show ?thesis
          by simp
      qed
    qed
  qed (use r in auto)
  have items: "\<exists>its'. read_items (Suc n) s' kvs = Some its' \<and> map strip_item its' = map strip_item its
                 \<and> (list_all (\<lambda>kv. clean (snd kv)) its \<longrightarrow> its' = its)"
    if "read_items (Suc n) s kvs = Some its" and sh: "shrinks s s'" for s s' kvs its
    using that(1)
  proof (induction kvs arbitrary: its)
    case Nil
    then show ?case by simp
  next
    case (Cons kv kvs)
    from Cons.prems obtain t rest where t: "read (Suc n) s (snd kv) = Some t"
      "read_items (Suc n) s kvs = Some rest" "its = (fst kv, t) # rest"
      by (auto split: option.splits)
    from one [OF t(1) sh] obtain t' where "read (Suc n) s' (snd kv) = Some t'" "strip t' = strip t"
      "clean t \<longrightarrow> t' = t"
      by blast
    moreover from Cons.IH [OF t(2)] obtain rest' where "read_items (Suc n) s' kvs = Some rest'"
      "map strip_item rest' = map strip_item rest"
      "list_all (\<lambda>kv. clean (snd kv)) rest \<longrightarrow> rest' = rest"
      by blast
    ultimately show ?case using t(3) by simp
  qed
  have all: "\<exists>ts'. read_all (Suc n) s' vs = Some ts' \<and> map strip ts' = map strip ts
               \<and> (list_all clean ts \<longrightarrow> ts' = ts)"
    if "read_all (Suc n) s vs = Some ts" and sh: "shrinks s s'" for s s' vs ts
    using that(1)
  proof (induction vs arbitrary: ts)
    case Nil
    then show ?case by simp
  next
    case (Cons v vs)
    from Cons.prems obtain t rest where t: "read (Suc n) s v = Some t"
      "read_all (Suc n) s vs = Some rest" "ts = t # rest"
      by (auto split: option.splits)
    from one [OF t(1) sh] obtain t' where "read (Suc n) s' v = Some t'" "strip t' = strip t"
      "clean t \<longrightarrow> t' = t"
      by blast
    moreover from Cons.IH [OF t(2)] obtain rest' where "read_all (Suc n) s' vs = Some rest'"
      "map strip rest' = map strip rest" "list_all clean rest \<longrightarrow> rest' = rest"
      by blast
    ultimately show ?case using t(3) by simp
  qed
  from one items all show ?case by blast
qed

lemma read_shrinks_strip:
  "read n s v = Some t \<Longrightarrow> shrinks s s' \<Longrightarrow> \<exists>t'. read n s' v = Some t' \<and> strip t' = strip t"
  using read_shrinks [of n] by blast

lemma read_all_shrinks:
  "read_all n s vs = Some ts \<Longrightarrow> shrinks s s' \<Longrightarrow> \<exists>ts'. read_all n s' vs = Some ts'"
  using read_shrinks [of n] by blast

lemma read_clean_frame:
  "read n s v = Some t \<Longrightarrow> clean t \<Longrightarrow> shrinks s s' \<Longrightarrow> read n s' v = Some t"
  using read_shrinks [of n] by blast

text \<open>
  The call succeeds on a value that the store holds within the depth, shrinks the
  store, and leaves a clean value.
\<close>

lemma fix_leaves_clean:
  "(\<forall>s v t. read n s v = Some t \<longrightarrow>
      (\<exists>s'. fix_schema_recursive n v s = Some (v, s') \<and> shrinks s s'
            \<and> (\<exists>t'. read n s' v = Some t' \<and> clean t')))
   \<and> (\<forall>s vs ts. read_all n s vs = Some ts \<longrightarrow>
      (\<exists>s'. fix_each n vs s = Some s' \<and> shrinks s s'
            \<and> (\<exists>ts'. read_all n s' vs = Some ts' \<and> list_all clean ts')))"
proof (induction n)
  case 0
  have a: "vs = [] \<and> ts = []" if "read_all 0 s vs = Some ts" for s vs ts
    using that by (cases vs) auto
  show ?case
    by (auto dest!: a)
next
  case (Suc n)
  have one: "\<exists>s'. fix_schema_recursive (Suc n) v s = Some (v, s') \<and> shrinks s s'
               \<and> (\<exists>t'. read (Suc n) s' v = Some t' \<and> clean t')"
    if r: "read (Suc n) s v = Some t" for s v t
  proof (cases v)
    case (VRef a)
    show ?thesis
    proof (cases "s a")
      case None
      with r VRef show ?thesis by simp
    next
      case (Some ob)
      show ?thesis
      proof (cases ob)
        case (ODict kvs)
        with Some r VRef obtain its where its: "read_items n s kvs = Some its"
          by auto
        define kvs1 where "kvs1 = without ''additionalProperties'' kvs"
        define s1 where "s1 = (if ''additionalProperties'' \<in> fst ` set kvs
                               then s(a \<mapsto> ODict (without ''additionalProperties'' kvs)) else s)"
        have s1a: "s1 a = Some (ODict kvs1)"
          using Some ODict by (simp add: s1_def kvs1_def without_absent)
        have sh1: "shrinks s s1"
          using Some ODict by (simp add: s1_def shrinks_upd)
        from read_items_values [OF read_items_without [OF its]]
        have "read_all n s (map snd kvs1) = Some (map snd (without ''additionalProperties'' its))"
          by (simp add: kvs1_def)
        from read_all_shrinks [OF this sh1] obtain ts1 where "read_all n s1 (map snd kvs1) = Some ts1"
          by blast
        with Suc obtain s2 ts' where s2: "fix_each n (map snd kvs1) s1 = Some s2" "shrinks s1 s2"
          "read_all n s2 (map snd kvs1) = Some ts'" "list_all clean ts'"
          by blast
        have call: "fix_schema_recursive (Suc n) v s = Some (v, s2)"
          using VRef Some ODict s1a s2(1) by (simp add: s1_def [symmetric] Let_def)
        from shrinks_dict [OF s2(2) s1a] have s2a: "s2 a = Some (ODict kvs1)"
          by (auto simp: kvs1_def)
        from read_all_items [OF s2(3)] obtain its' where its': "read_items n s2 kvs1 = Some its'"
          "map snd its' = ts'"
          by blast
        from read_items_keys [OF its'(1)] have "fst ` set its' = fst ` set kvs1"
          by (metis set_map)
        then have "''additionalProperties'' \<notin> fst ` set its'"
          by (simp add: kvs1_def)
        moreover from its'(2) s2(4) have "list_all (\<lambda>kv. clean (snd kv)) its'"
          by (force simp: list_all_iff)
        ultimately have "clean (JObj its')"
          by simp
        moreover have "read (Suc n) s2 v = Some (JObj its')"
          using VRef s2a its'(1) by simp
        moreover have "shrinks s s2"
          using sh1 s2(2) by (rule shrinks_trans)
        ultimately show ?thesis
          using call by blast
      next
        case (OList items)
        with Some r VRef obtain ts where "read_all n s items = Some ts"
          by auto
        with Suc obtain s2 ts' where s2: "fix_each n items s = Some s2" "shrinks s s2"
          "read_all n s2 items = Some ts'" "list_all clean ts'"
          by blast
        have "fix_schema_recursive (Suc n) v s = Some (v, s2)"
          using VRef Some OList s2(1) by simp
        moreover have "read (Suc n) s2 v = Some (JList ts')"
          using VRef shrinks_list [OF s2(2)] Some OList s2(3) by simp
        moreover have "clean (JList ts')"
          using s2(4) by simp
        ultimately show ?thesis
          using s2(2) by blast
      qed
    qed
  qed auto
  have all: "\<exists>s'. fix_each (Suc n) vs s = Some s' \<and> shrinks s s'
               \<and> (\<exists>ts'. read_all (Suc n) s' vs = Some ts' \<and> list_all clean ts')"
    if "read_all (Suc n) s vs = Some ts" for s vs ts
    using that
  proof (induction vs arbitrary: s ts)
    case Nil
    then show ?case by simp
  next
    case (Cons v vs)
    from Cons.prems obtain t rest where t: "read (Suc n) s v = Some t"
      "read_all (Suc n) s vs = Some rest"
      by (auto split: option.splits)
    from one [OF t(1)] obtain s1 t1 where s1: "fix_schema_recursive (Suc n) v s = Some (v, s1)"
      "shrinks s s1" "read (Suc n) s1 v = Some t1" "clean t1"
      by blast
    from read_all_shrinks [OF t(2) s1(2)] obtain rest1 where "read_all (Suc n) s1 vs = Some rest1"
      by blast
    from Cons.IH [OF this] obtain s2 rest2 where s2: "fix_each (Suc n) vs s1 = Some s2"
      "shrinks s1 s2" "read_all (Suc n) s2 vs = Some rest2" "list_all clean rest2"
      by blast
    have "fix_each (Suc n) (v # vs) s = Some s2"
      using s1(1) s2(1) by simp
    moreover have "shrinks s s2"
      using s1(2) s2(2) by (rule shrinks_trans)
    moreover have "read_all (Suc n) s2 (v # vs) = Some (t1 # rest2)"
      using read_clean_frame [OF s1(3,4) s2(2)] s2(3) by simp
    moreover have "list_all clean (t1 # rest2)"
      using s1(4) s2(4) by simp
    ultimately show ?case by blast
  qed
  from one all show ?case by blast
qed

text \<open>On a clean value the call changes nothing.\<close>

lemma fix_clean_noop:
  "(\<forall>s v t. read n s v = Some t \<longrightarrow> clean t \<longrightarrow> fix_schema_recursive n v s = Some (v, s))
   \<and> (\<forall>s vs ts. read_all n s vs = Some ts \<longrightarrow> list_all clean ts \<longrightarrow> fix_each n vs s = Some s)"
proof (induction n)
  case 0
  have a: "vs = [] \<and> ts = []" if "read_all 0 s vs = Some ts" for s vs ts
    using that by (cases vs) auto
  show ?case
    by (auto dest!: a)
next
  case (Suc n)
  have one: "fix_schema_recursive (Suc n) v s = Some (v, s)"
    if r: "read (Suc n) s v = Some t" and c: "clean t" for s v t
  proof (cases v)
    case (VRef a)
    show ?thesis
    proof (cases "s a")
      case None
      with r VRef show ?thesis by simp
    next
      case (Some ob)
      show ?thesis
      proof (cases ob)
        case (ODict kvs)
        with Some r VRef obtain its where its: "read_items n s kvs = Some its" "t = JObj its"
          by auto
        from read_items_keys [OF its(1)] have "fst ` set its = fst ` set kvs"
          by (metis set_map)
        with c its(2) have absent: "''additionalProperties'' \<notin> fst ` set kvs"
          by simp
        from c its(2) have "list_all clean (map snd its)"
          by (auto simp: list_all_iff)
        with Suc read_items_values [OF its(1)] have "fix_each n (map snd kvs) s = Some s"
          by blast
        with VRef Some ODict absent show ?thesis
          by simp
      next
        case (OList items)
        with Some r VRef obtain ts where ts: "read_all n s items = Some ts" "t = JList ts"
          by auto
        with c Suc have "fix_each n items s = Some s"
          by auto
        with VRef Some OList show ?thesis
          by simp
      qed
    qed
  qed auto
  have all: "fix_each (Suc n) vs s = Some s"
    if "read_all (Suc n) s vs = Some ts" and "list_all clean ts" for s vs ts
    using that
  proof (induction vs arbitrary: ts)
    case Nil
    then show ?case by simp
  next
    case (Cons v vs)
    from Cons.prems obtain t rest where t: "read (Suc n) s v = Some t"
      "read_all (Suc n) s vs = Some rest" "ts = t # rest"
      by (auto split: option.splits)
    with Cons.prems(2) have "clean t" "list_all clean rest"
      by simp_all
    with one [OF t(1)] Cons.IH [OF t(2)] show ?case
      by simp
  qed
  from one all show ?case by blast
qed

lemma strip_clean: "clean t \<Longrightarrow> strip t = t"
proof (induction t rule: strip.induct)
  case (1 kvs)
  then have "map strip_item kvs = kvs"
    by (induction kvs) (auto simp: list_all_iff)
  with 1 show ?case
    by (simp add: without_map_snd without_absent)
next
  case (2 xs)
  then have "map strip xs = xs"
    by (induction xs) auto
  then show ?case by simp
qed simp_all

lemma clean_strip: "clean (strip t)"
proof (induction t rule: strip.induct)
  case (1 kvs)
  then show ?case
    by (auto simp: list_all_iff without_def)
next
  case (2 xs)
  then show ?case by (auto simp: list_all_iff)
qed simp_all

lemma strip_idem: "strip (strip t) = strip t"
  by (simp add: strip_clean clean_strip)

lemma read_schema_store: "read 6 schema_store (VRef 0) = Some schema_value"
  by code_simp

lemma strip_schema_value: "strip schema_value = schema_value_fixed"
  by code_simp

text \<open>
  Past the depth the interpreter allows the call raises: the value of \<open>schema_store\<close>
  is six levels deep.
\<close>

lemma fix_schema_too_deep: "fix_schema_recursive 5 (VRef 0) schema_store = None"
  by code_simp

subsection \<open>The field goes, and the argument is changed\<close>

text \<open>
  C5, the claim as stated fails in its last part: the call is not free of side effects.
  The dictionary at reference 0 has the field before the call; after the call, which
  returns that same reference, the caller's dictionary has lost it.
\<close>

theorem fix_schema_pure_counterexample:
  "schema_store 0 = Some (ODict [(''type'', VStr ''object''),
                                 (''additionalProperties'', VBool False),
                                 (''properties'', VRef 1)])
   \<and> map_option (\<lambda>r. (fst r, snd r 0)) (fix_schema_recursive 6 (VRef 0) schema_store)
     = Some (VRef 0, Some (ODict [(''type'', VStr ''object''), (''properties'', VRef 1)]))"
  by code_simp

text \<open>
  C5, amended. For every nested value that the store holds at \<open>obj\<close> within the
  depth the interpreter allows, the call returns \<open>obj\<close> itself and leaves a store
  that holds at \<open>obj\<close> the normal form of that value: the field
  \<open>additionalProperties\<close> is gone from every mapping at every depth, inside sequences
  too, and nothing else has changed. The transform is done in place, on the argument.
\<close>

theorem fix_schema_removes_field:
  assumes "read n s obj = Some t"
  shows "\<exists>s'. fix_schema_recursive n obj s = Some (obj, s')
              \<and> read n s' obj = Some (strip t) \<and> clean (strip t)"
proof -
  from fix_leaves_clean [of n] assms obtain s' t' where s': "fix_schema_recursive n obj s = Some (obj, s')"
    "shrinks s s'" "read n s' obj = Some t'" "clean t'"
    by blast
  from read_shrinks_strip [OF assms s'(2)] s'(3) have "strip t' = strip t"
    by auto
  with s'(4) have "t' = strip t"
    by (simp add: strip_clean)
  with s' show ?thesis
    by (auto simp: clean_strip)
qed

theorem fix_schema_removes_field_witness:
  "read 6 schema_store (VRef 0) = Some schema_value
   \<and> (\<exists>s'. fix_schema_recursive 6 (VRef 0) schema_store = Some (VRef 0, s')
           \<and> read 6 s' (VRef 0) = Some schema_value_fixed \<and> clean schema_value_fixed)"
  using read_schema_store fix_schema_removes_field [OF read_schema_store]
  by (simp add: strip_schema_value)

subsection \<open>Idempotence\<close>

text \<open>
  C6. For every nested value that the store holds at \<open>obj\<close> within the depth, applying
  \<open>fix_schema_recursive\<close> to the result of \<open>fix_schema_recursive\<close> gives that result
  again: the same object in the same store, \<open>fix(fix(x)) = fix(x)\<close>.
\<close>

theorem fix_schema_idempotent:
  assumes "read n s obj = Some t"
  shows "\<exists>r. fix_schema_recursive n obj s = Some r
             \<and> fix_schema_recursive n (fst r) (snd r) = Some r"
proof -
  from fix_leaves_clean [of n] assms obtain s' t' where s': "fix_schema_recursive n obj s = Some (obj, s')"
    "read n s' obj = Some t'" "clean t'"
    by blast
  from fix_clean_noop [of n] s'(2,3) have "fix_schema_recursive n obj s' = Some (obj, s')"
    by blast
  with s'(1) show ?thesis
    by simp
qed

theorem fix_schema_idempotent_witness:
  "read 6 schema_store (VRef 0) = Some schema_value
   \<and> (\<exists>r. fix_schema_recursive 6 (VRef 0) schema_store = Some r
          \<and> fix_schema_recursive 6 (fst r) (snd r) = Some r)"
  using read_schema_store fix_schema_idempotent [OF read_schema_store]
  by simp

end
